theory Spec2Isabelle
  imports Complex_Main
begin

section \<open>Values\<close>

text \<open>
  JSON values as the program handles them after \<^verbatim>\<open>JSON.parse\<close> and before
  \<^verbatim>\<open>JSON.stringify\<close>. An object lists its own properties; a property read takes the first
  entry with that key. Numbers are exact rationals: the only arithmetic done on a number
  (by the schema of \<^verbatim>\<open>first\<close>) is a comparison with 1 and with 100.
\<close>

datatype json =
    JNull
  | JBool bool
  | JNum rat
  | JStr string
  | JArr "json list"
  | JObj "(string \<times> json) list"

text \<open>A JavaScript value that may be \<^verbatim>\<open>undefined\<close> (\<open>None\<close>).\<close>

type_synonym jsval = "json option"

text \<open>
  Truthiness of an optional string, as in \<^verbatim>\<open>if (!token)\<close>, \<^verbatim>\<open>if (!projectId)\<close>,
  \<^verbatim>\<open>if (contentId)\<close>, \<^verbatim>\<open>else if (title)\<close> and \<^verbatim>\<open>body || ""\<close>: \<^verbatim>\<open>undefined\<close> and the empty
  string are falsy.
\<close>

definition truthy :: "string option \<Rightarrow> bool" where
  "truthy s = (case s of None \<Rightarrow> False | Some t \<Rightarrow> t \<noteq> [])"

text \<open>
  An object literal as it is transmitted: \<^verbatim>\<open>JSON.stringify\<close> leaves out the properties whose
  value is \<^verbatim>\<open>undefined\<close>.
\<close>

definition object_of :: "(string \<times> jsval) list \<Rightarrow> json" where
  "object_of kvs = JObj (concat (map (\<lambda>(k, v). case v of None \<Rightarrow> [] | Some j \<Rightarrow> [(k, j)]) kvs))"

section \<open>Errors\<close>

text \<open>One issue of a failed schema check: the parameter and what was wrong with it.\<close>

datatype zod_code = invalid_type | too_small | too_big | invalid_enum_value

datatype zod_issue = Issue string zod_code

text \<open>
  Every way an invocation fails, one constructor per place where an exception arises:
  \<^item> \<open>TokenNotSet\<close>: \<^verbatim>\<open>throw new Error("GITHUB_TOKEN environment variable is not set")\<close>;
  \<^item> \<open>GitHubApiError status text\<close>: \<^verbatim>\<open>throw new Error(`GitHub API error (${response.status}): ${errorText}`)\<close>;
  \<^item> \<open>ContentIdOrTitle\<close>: \<^verbatim>\<open>throw new Error("Either contentId or title must be provided")\<close>;
  \<^item> \<open>FetchRejected cause\<close>: the promise of \<^verbatim>\<open>fetch\<close> rejects (no response arrived);
  \<^item> \<open>JsonSyntaxError\<close>: \<^verbatim>\<open>response.json()\<close> rejects, the body is not JSON;
  \<^item> \<open>TypeError p\<close>: the runtime's error on reading property \<open>p\<close> of \<^verbatim>\<open>undefined\<close> or
    \<^verbatim>\<open>null\<close>;
  \<^item> \<open>InvalidParams issues\<close>: the arguments do not fit the schema the tool was registered with;
  \<^item> \<open>Unregistered name\<close>: \<^verbatim>\<open>main.ts\<close> registers no tool under the name.
  The last two are failures of the server library, and no callback of \<^verbatim>\<open>main.ts\<close> has run.
  Which of its errors the library raises for an unregistered name depends on the name: its
  tool-not-found error for a name that its lookup does not find; a name that every object
  inherits (\<^verbatim>\<open>constructor\<close>, \<^verbatim>\<open>toString\<close>) is found by a lookup in a plain object and the
  invocation fails later, on the callback that is missing. \<open>Unregistered\<close> stands for either.
\<close>

datatype error =
    TokenNotSet
  | GitHubApiError nat string
  | ContentIdOrTitle
  | FetchRejected string
  | JsonSyntaxError
  | TypeError string
  | InvalidParams "zod_issue list"
  | Unregistered string

text \<open>Decimal digits of a number, as a template literal prints \<^verbatim>\<open>response.status\<close>.\<close>

function show_nat :: "nat \<Rightarrow> string" where
  "show_nat n =
     (if n < 10 then [char_of (48 + n)]
      else show_nat (n div 10) @ [char_of (48 + n mod 10)])"
  by pat_completeness auto
termination
  by (relation "measure id") auto

text \<open>
  The message of the errors that \<^verbatim>\<open>main.ts\<close> constructs itself; the text of the others is
  the runtime's or a library's.
\<close>

fun message :: "error \<Rightarrow> string option" where
  "message TokenNotSet = Some ''GITHUB_TOKEN environment variable is not set''"
| "message (GitHubApiError status errorText) =
     Some (''GitHub API error ('' @ show_nat status @ ''): '' @ errorText)"
| "message ContentIdOrTitle = Some ''Either contentId or title must be provided''"
| "message _ = None"

text \<open>
  The kinds of failure that the specification names, and the kind that each failure of the
  program belongs to. A \<open>TypeError\<close> or a \<open>JsonSyntaxError\<close> is raised by the runtime, not by
  a check of the program, and belongs to none of the named kinds. \<open>Unregistered\<close> is counted
  by its cause, the name, whichever error the library raises.
\<close>

datatype error_kind =
    MissingCredential
  | UnknownOperation
  | InvalidParameter
  | NotFound
  | UpstreamError
  | TransportError
  | RuntimeFault

fun kind_of :: "error \<Rightarrow> error_kind" where
  "kind_of TokenNotSet = MissingCredential"
| "kind_of (GitHubApiError status errorText) = UpstreamError"
| "kind_of ContentIdOrTitle = InvalidParameter"
| "kind_of (FetchRejected cause) = TransportError"
| "kind_of JsonSyntaxError = RuntimeFault"
| "kind_of (TypeError p) = RuntimeFault"
| "kind_of (InvalidParams issues) = InvalidParameter"
| "kind_of (Unregistered name) = UnknownOperation"

section \<open>The remote call: \<^verbatim>\<open>executeGitHubGraphQL\<close>\<close>

text \<open>The process environment: \<^verbatim>\<open>Deno.env.get("GITHUB_TOKEN")\<close>.\<close>

record env =
  GITHUB_TOKEN :: "string option"

text \<open>
  The request handed to \<^verbatim>\<open>fetch\<close>. The body is the value that \<^verbatim>\<open>JSON.stringify\<close> serialises,
  an object with the properties \<^verbatim>\<open>query\<close> and \<^verbatim>\<open>variables\<close>.
\<close>

record request =
  url :: string
  http_method :: string
  headers :: "(string \<times> string) list"
  request_body :: json

text \<open>
  A response: its status, the body as \<^verbatim>\<open>response.text()\<close> gives it, and the body as
  \<^verbatim>\<open>response.json()\<close> gives it (\<open>None\<close> when the body does not parse).
\<close>

record response =
  status :: nat
  text_body :: string
  json_body :: "json option"

definition ok :: "response \<Rightarrow> bool" where
  "ok r = (200 \<le> status r \<and> status r \<le> 299)"

datatype fetch_outcome = Rejected string | Responded response

text \<open>
  The remote API answers a request, possibly depending on the requests that the invocation
  has issued before.
\<close>

type_synonym remote = "request list \<Rightarrow> request \<Rightarrow> fetch_outcome"

definition graphql_request :: "string \<Rightarrow> string \<Rightarrow> json \<Rightarrow> request" where
  "graphql_request token query variables =
     \<lparr>url = ''https://api.github.com/graphql'',
      http_method = ''POST'',
      headers = [(''Authorization'', ''Bearer '' @ token), (''Content-Type'', ''application/json'')],
      request_body = JObj [(''query'', JStr query), (''variables'', variables)]\<rparr>"

text \<open>
  The function returns its result together with the log of the requests issued so far, each
  call of \<^verbatim>\<open>fetch\<close> adding one. The \<^verbatim>\<open>catch\<close> block logs and rethrows, so every error leaves
  the function as it arose.
\<close>

definition executeGitHubGraphQL ::
  "env \<Rightarrow> remote \<Rightarrow> string \<Rightarrow> json \<Rightarrow> request list \<Rightarrow> (error + json) \<times> request list" where
  "executeGitHubGraphQL e rem query variables calls =
     (if \<not> truthy (GITHUB_TOKEN e) then (Inl TokenNotSet, calls)
      else
        let req = graphql_request (the (GITHUB_TOKEN e)) query variables in
        (case rem calls req of
           Rejected cause \<Rightarrow> (Inl (FetchRejected cause), calls @ [req])
         | Responded resp \<Rightarrow>
             if \<not> ok resp then (Inl (GitHubApiError (status resp) (text_body resp)), calls @ [req])
             else (case json_body resp of
                     None \<Rightarrow> (Inl JsonSyntaxError, calls @ [req])
                   | Some j \<Rightarrow> (Inr j, calls @ [req]))))"

text \<open>The query and the variables of a transmitted request.\<close>

definition query_of :: "request \<Rightarrow> jsval" where
  "query_of r = (case request_body r of JObj kvs \<Rightarrow> map_of kvs ''query'' | _ \<Rightarrow> None)"


section \<open>The documents\<close>

text \<open>
  A template literal that starts with a line break: every line of the list is preceded by
  one. The last line of each document is the indentation before the closing backtick.
\<close>

definition template :: "string list \<Rightarrow> string" where
  "template ls = concat (map (\<lambda>l. CHR 0x0A # l) ls)"

text \<open>\<^verbatim>\<open>main.ts\<close>, line 58.\<close>

definition getCurrentUser_query :: string where
  "getCurrentUser_query = template
    [''    query GetCurrentUser {'',
     ''      viewer {'',
     ''        id'',
     ''        login'',
     ''      }'',
     ''    }'',
     ''  '']"

text \<open>\<^verbatim>\<open>main.ts\<close>, line 77.\<close>

definition getProjectId_query :: string where
  "getProjectId_query = template
    [''    query GetOrganizationProjects($org: String!, $projectName: String!) {'',
     ''      organization(login: $org) {'',
     ''        projectsV2(first: 10, query: $projectName) {'',
     ''          nodes {'',
     ''            id'',
     ''            title'',
     ''          }'',
     ''        }'',
     ''      }'',
     ''    }'',
     ''  '']"

text \<open>\<^verbatim>\<open>main.ts\<close>, line 103.\<close>

definition get_github_projects_query :: string where
  "get_github_projects_query = template
    [''      query GetOrganizationProjects($org: String!) {'',
     ''        organization(login: $org) {'',
     ''          projectsV2(first: 20) {'',
     ''            nodes {'',
     ''              id'',
     ''              title'',
     ''              shortDescription'',
     ''              url'',
     ''              closed'',
     ''              createdAt'',
     ''              updatedAt'',
     ''            }'',
     ''          }'',
     ''        }'',
     ''      }'',
     ''    '']"

text \<open>\<^verbatim>\<open>main.ts\<close>, line 140.\<close>

definition get_project_details_query :: string where
  "get_project_details_query = template
    [''      query GetProjectDetails($id: ID!) {'',
     ''        node(id: $id) {'',
     ''          ... on ProjectV2 {'',
     ''            id'',
     ''            title'',
     ''            shortDescription'',
     ''            url'',
     ''            closed'',
     ''            createdAt'',
     ''            updatedAt'',
     ''            readme'',
     ''            items(first: 20) {'',
     ''              nodes {'',
     ''                id'',
     ''                content {'',
     ''                  ... on Issue {'',
     ''                    title'',
     ''                    url'',
     ''                    state'',
     ''                  }'',
     ''                  ... on PullRequest {'',
     ''                    title'',
     ''                    url'',
     ''                    state'',
     ''                  }'',
     ''                }'',
     ''                fieldValues(first: 8) {'',
     ''                  nodes {'',
     ''                    ... on ProjectV2ItemFieldTextValue {'',
     ''                      text'',
     ''                      field {'',
     ''                        ... on ProjectV2FieldCommon {'',
     ''                          name'',
     ''                        }'',
     ''                      }'',
     ''                    }'',
     ''                    ... on ProjectV2ItemFieldDateValue {'',
     ''                      date'',
     ''                      field {'',
     ''                        ... on ProjectV2FieldCommon {'',
     ''                          name'',
     ''                        }'',
     ''                      }'',
     ''                    }'',
     ''                    ... on ProjectV2ItemFieldSingleSelectValue {'',
     ''                      name'',
     ''                      field {'',
     ''                        ... on ProjectV2FieldCommon {'',
     ''                          name'',
     ''                        }'',
     ''                      }'',
     ''                    }'',
     ''                  }'',
     ''                }'',
     ''              }'',
     ''            }'',
     ''            fields(first: 20) {'',
     ''              nodes {'',
     ''                ... on ProjectV2FieldCommon {'',
     ''                  id'',
     ''                  name'',
     ''                }'',
     ''                ... on ProjectV2SingleSelectField {'',
     ''                  id'',
     ''                  name'',
     ''                  options {'',
     ''                    id'',
     ''                    name'',
     ''                    color'',
     ''                  }'',
     ''                }'',
     ''              }'',
     ''            }'',
     ''          }'',
     ''        }'',
     ''      }'',
     ''    '']"

text \<open>\<^verbatim>\<open>main.ts\<close>, line 240.\<close>

definition get_repository_issues_query :: string where
  "get_repository_issues_query = template
    [''      query GetRepositoryIssues($owner: String!, $repo: String!, $states: [IssueState!], $first: Int!) {'',
     ''        repository(owner: $owner, name: $repo) {'',
     ''          issues(first: $first, states: $states, orderBy: {field: CREATED_AT, direction: DESC}) {'',
     ''            nodes {'',
     ''              id'',
     ''              number'',
     ''              title'',
     ''              state'',
     ''              createdAt'',
     ''              updatedAt'',
     ''              url'',
     ''              author {'',
     ''                login'',
     ''              }'',
     ''              labels(first: 10) {'',
     ''                nodes {'',
     ''                  name'',
     ''                  color'',
     ''                }'',
     ''              }'',
     ''              assignees(first: 5) {'',
     ''                nodes {'',
     ''                  login'',
     ''                  avatarUrl'',
     ''                }'',
     ''              }'',
     ''              projectsV2(first: 10) {'',
     ''                nodes {'',
     ''                  id'',
     ''                  title'',
     ''                }'',
     ''              }'',
     ''            }'',
     ''          }'',
     ''        }'',
     ''      }'',
     ''    '']"

text \<open>\<^verbatim>\<open>main.ts\<close>, line 301.\<close>

definition get_repository_pull_requests_query :: string where
  "get_repository_pull_requests_query = template
    [''      query GetRepositoryPullRequests($owner: String!, $repo: String!, $states: [PullRequestState!], $first: Int!) {'',
     ''        repository(owner: $owner, name: $repo) {'',
     ''          pullRequests(first: $first, states: $states, orderBy: {field: CREATED_AT, direction: DESC}) {'',
     ''            nodes {'',
     ''              id'',
     ''              number'',
     ''              title'',
     ''              state'',
     ''              createdAt'',
     ''              updatedAt'',
     ''              url'',
     ''              author {'',
     ''                login'',
     ''              }'',
     ''              labels(first: 10) {'',
     ''                nodes {'',
     ''                  name'',
     ''                  color'',
     ''                }'',
     ''              }'',
     ''              assignees(first: 5) {'',
     ''                nodes {'',
     ''                  login'',
     ''                  avatarUrl'',
     ''                }'',
     ''              }'',
     ''              reviews(first: 10) {'',
     ''                nodes {'',
     ''                  author {'',
     ''                    login'',
     ''                  }'',
     ''                  state'',
     ''                }'',
     ''              }'',
     ''              projectsV2(first: 10) {'',
     ''                nodes {'',
     ''                  id'',
     ''                  title'',
     ''                }'',
     ''              }'',
     ''            }'',
     ''          }'',
     ''        }'',
     ''      }'',
     ''    '']"

text \<open>\<^verbatim>\<open>main.ts\<close>, line 382.\<close>

definition add_item_to_project_mutation_content :: string where
  "add_item_to_project_mutation_content = template
    [''        mutation AddProjectItem($input: AddProjectV2ItemByIdInput!) {'',
     ''          addProjectV2ItemById(input: $input) {'',
     ''            item {'',
     ''              id'',
     ''            }'',
     ''          }'',
     ''        }'',
     ''      '']"

text \<open>\<^verbatim>\<open>main.ts\<close>, line 399.\<close>

definition add_item_to_project_mutation_draft :: string where
  "add_item_to_project_mutation_draft = template
    [''        mutation AddDraftIssue($input: AddProjectV2DraftIssueInput!) {'',
     ''          addProjectV2DraftIssue(input: $input) {'',
     ''            projectItem {'',
     ''              id'',
     ''            }'',
     ''          }'',
     ''        }'',
     ''      '']"

text \<open>\<^verbatim>\<open>main.ts\<close>, line 440.\<close>

definition update_project_item_field_mutation :: string where
  "update_project_item_field_mutation = template
    [''      mutation UpdateProjectItemField($input: UpdateProjectV2ItemFieldValueInput!) {'',
     ''        updateProjectV2ItemFieldValue(input: $input) {'',
     ''          projectV2Item {'',
     ''            id'',
     ''          }'',
     ''        }'',
     ''      }'',
     ''    '']"

text \<open>\<^verbatim>\<open>main.ts\<close>, line 481.\<close>

definition get_repositories_query_org :: string where
  "get_repositories_query_org = template
    [''        query GetOrgRepos($owner: String!, $first: Int!) {'',
     ''          organization(login: $owner) {'',
     ''            repositories(first: $first, orderBy: {field: UPDATED_AT, direction: DESC}) {'',
     ''              nodes {'',
     ''                id'',
     ''                name'',
     ''                description'',
     ''                url'',
     ''                stargazerCount'',
     ''                forkCount'',
     ''                isPrivate'',
     ''                updatedAt'',
     ''              }'',
     ''            }'',
     ''          }'',
     ''        }'',
     ''      '']"

text \<open>\<^verbatim>\<open>main.ts\<close>, line 499.\<close>

definition get_repositories_query_user :: string where
  "get_repositories_query_user = template
    [''        query GetUserRepos($owner: String!, $first: Int!) {'',
     ''          user(login: $owner) {'',
     ''            repositories(first: $first, orderBy: {field: UPDATED_AT, direction: DESC}) {'',
     ''              nodes {'',
     ''                id'',
     ''                name'',
     ''                description'',
     ''                url'',
     ''                stargazerCount'',
     ''                forkCount'',
     ''                isPrivate'',
     ''                updatedAt'',
     ''              }'',
     ''            }'',
     ''          }'',
     ''        }'',
     ''      '']"

text \<open>\<^verbatim>\<open>main.ts\<close>, line 534.\<close>

definition get_project_views_query :: string where
  "get_project_views_query = template
    [''      query GetProjectViews($id: ID!) {'',
     ''        node(id: $id) {'',
     ''          ... on ProjectV2 {'',
     ''            views(first: 10) {'',
     ''              nodes {'',
     ''                id'',
     ''                name'',
     ''                layout'',
     ''                fields {'',
     ''                  ... on ProjectV2FieldCommon {'',
     ''                    id'',
     ''                    name'',
     ''                  }'',
     ''                }'',
     ''              }'',
     ''            }'',
     ''          }'',
     ''        }'',
     ''      }'',
     ''    '']"

section \<open>Reading the lookup's answer\<close>

text \<open>
  A property read \<^verbatim>\<open>v.p\<close>, for the properties that the program reads (\<^verbatim>\<open>data\<close>,
  \<^verbatim>\<open>organization\<close>, \<^verbatim>\<open>projectsV2\<close>, \<^verbatim>\<open>nodes\<close>, \<^verbatim>\<open>id\<close>, \<^verbatim>\<open>viewer\<close>, \<^verbatim>\<open>login\<close>): on \<^verbatim>\<open>undefined\<close> and on \<^verbatim>\<open>null\<close> the
  runtime throws; an object gives the property or \<^verbatim>\<open>undefined\<close>; an array, a string, a number
  and a boolean have none of these properties.
\<close>

fun get_prop :: "jsval \<Rightarrow> string \<Rightarrow> error + jsval" where
  "get_prop None p = Inl (TypeError p)"
| "get_prop (Some JNull) p = Inl (TypeError p)"
| "get_prop (Some (JObj kvs)) p = Inr (map_of kvs p)"
| "get_prop (Some v) p = Inr None"

text \<open>
  The element read \<^verbatim>\<open>v[0]\<close>: the first element of an array, the first character of a
  string, the property \<^verbatim>\<open>"0"\<close> of an object, \<^verbatim>\<open>undefined\<close> where there is none.
\<close>

fun get_first :: "jsval \<Rightarrow> error + jsval" where
  "get_first None = Inl (TypeError ''0'')"
| "get_first (Some JNull) = Inl (TypeError ''0'')"
| "get_first (Some (JArr xs)) = Inr (case xs of [] \<Rightarrow> None | x # rest \<Rightarrow> Some x)"
| "get_first (Some (JStr s)) = Inr (case s of [] \<Rightarrow> None | c # rest \<Rightarrow> Some (JStr [c]))"
| "get_first (Some (JObj kvs)) = Inr (map_of kvs ''0'')"
| "get_first (Some v) = Inr None"

text \<open>A read that follows another one; an error of the earlier read ends the chain.\<close>

definition then_prop :: "error + jsval \<Rightarrow> string \<Rightarrow> error + jsval" where
  "then_prop r p = (case r of Inl err \<Rightarrow> Inl err | Inr v \<Rightarrow> get_prop v p)"

definition then_first :: "error + jsval \<Rightarrow> error + jsval" where
  "then_first r = (case r of Inl err \<Rightarrow> Inl err | Inr v \<Rightarrow> get_first v)"

text \<open>\<^verbatim>\<open>data.data.organization.projectsV2.nodes\<close>\<close>

definition project_nodes :: "json \<Rightarrow> error + jsval" where
  "project_nodes data =
     then_prop
       (then_prop (then_prop (get_prop (Some data) ''data'') ''organization'') ''projectsV2'')
       ''nodes''"

text \<open>\<^verbatim>\<open>data.data.organization.projectsV2.nodes[0].id\<close>\<close>

definition first_project_id :: "json \<Rightarrow> error + jsval" where
  "first_project_id data = then_prop (then_first (project_nodes data)) ''id''"

definition getProjectId ::
  "env \<Rightarrow> remote \<Rightarrow> string \<Rightarrow> string \<Rightarrow> request list \<Rightarrow> (error + jsval) \<times> request list" where
  "getProjectId e rem organization projectName calls =
     (case executeGitHubGraphQL e rem getProjectId_query
             (object_of [(''org'', Some (JStr organization)), (''projectName'', Some (JStr projectName))])
             calls of
        (Inl err, calls') \<Rightarrow> (Inl err, calls')
      | (Inr data, calls') \<Rightarrow> (first_project_id data, calls'))"

text \<open>\<^verbatim>\<open>getCurrentUser\<close>, which no tool calls: \<^verbatim>\<open>userData.data.viewer.login\<close>.\<close>

definition getCurrentUser ::
  "env \<Rightarrow> remote \<Rightarrow> request list \<Rightarrow> (error + jsval) \<times> request list" where
  "getCurrentUser e rem calls =
     (case executeGitHubGraphQL e rem getCurrentUser_query (object_of []) calls of
        (Inl err, calls') \<Rightarrow> (Inl err, calls')
      | (Inr userData, calls') \<Rightarrow>
          (then_prop (then_prop (get_prop (Some userData) ''data'') ''viewer'') ''login'', calls'))"

section \<open>The tools\<close>

text \<open>
  Writes to the console (\<^verbatim>\<open>console.error\<close> in the remote call, \<^verbatim>\<open>console.log\<close> in
  \<^verbatim>\<open>update_project_item_field\<close>) change nothing that a tool returns or sends and are left
  out.

  What a tool returns: one text item, whose text is \<^verbatim>\<open>JSON.stringify(data)\<close>. The item keeps
  the value that is serialised.
\<close>

datatype content_item = TextOfJson json

record tool_result =
  content :: "content_item list"

definition respond :: "(error + json) \<times> request list \<Rightarrow> (error + tool_result) \<times> request list" where
  "respond r =
     (case r of
        (Inl err, calls) \<Rightarrow> (Inl err, calls)
      | (Inr data, calls) \<Rightarrow> (Inr \<lparr>content = [TextOfJson data]\<rparr>, calls))"

definition get_github_projects ::
  "env \<Rightarrow> remote \<Rightarrow> string \<Rightarrow> request list \<Rightarrow> (error + tool_result) \<times> request list" where
  "get_github_projects e rem organization calls =
     respond (executeGitHubGraphQL e rem get_github_projects_query
                (object_of [(''org'', Some (JStr organization))]) calls)"

definition get_project_details ::
  "env \<Rightarrow> remote \<Rightarrow> string \<Rightarrow> request list \<Rightarrow> (error + tool_result) \<times> request list" where
  "get_project_details e rem projectId calls =
     respond (executeGitHubGraphQL e rem get_project_details_query
                (object_of [(''id'', Some (JStr projectId))]) calls)"

definition get_repository_issues ::
  "env \<Rightarrow> remote \<Rightarrow> string \<Rightarrow> string \<Rightarrow> string \<Rightarrow> rat \<Rightarrow> request list
     \<Rightarrow> (error + tool_result) \<times> request list" where
  "get_repository_issues e rem owner repo states first calls =
     (let issueStates = (if states = ''ALL'' then [JStr ''OPEN'', JStr ''CLOSED''] else [JStr states])
      in respond (executeGitHubGraphQL e rem get_repository_issues_query
                    (object_of [(''owner'', Some (JStr owner)), (''repo'', Some (JStr repo)),
                                (''states'', Some (JArr issueStates)), (''first'', Some (JNum first))])
                    calls))"

definition get_repository_pull_requests ::
  "env \<Rightarrow> remote \<Rightarrow> string \<Rightarrow> string \<Rightarrow> string \<Rightarrow> rat \<Rightarrow> request list
     \<Rightarrow> (error + tool_result) \<times> request list" where
  "get_repository_pull_requests e rem owner repo states first calls =
     (let prStates = (if states = ''ALL'' then [JStr ''OPEN'', JStr ''CLOSED'', JStr ''MERGED'']
                      else [JStr states])
      in respond (executeGitHubGraphQL e rem get_repository_pull_requests_query
                    (object_of [(''owner'', Some (JStr owner)), (''repo'', Some (JStr repo)),
                                (''states'', Some (JArr prStates)), (''first'', Some (JNum first))])
                    calls))"

text \<open>
  The document and the variables that \<^verbatim>\<open>add_item_to_project\<close> chooses once the project
  identifier is known; neither a \<^verbatim>\<open>contentId\<close> nor a \<^verbatim>\<open>title\<close> is the \<^verbatim>\<open>throw\<close> of the last
  branch.
\<close>

definition add_item_document ::
  "jsval \<Rightarrow> string option \<Rightarrow> string option \<Rightarrow> string option \<Rightarrow> error + string \<times> json" where
  "add_item_document projectId contentId title body =
     (if truthy contentId then
        Inr (add_item_to_project_mutation_content,
             object_of [(''input'', Some (object_of
               [(''projectId'', projectId), (''contentId'', Some (JStr (the contentId)))]))])
      else if truthy title then
        Inr (add_item_to_project_mutation_draft,
             object_of [(''input'', Some (object_of
               [(''projectId'', projectId), (''title'', Some (JStr (the title))),
                (''body'', Some (JStr (if truthy body then the body else '''')))]))])
      else Inl ContentIdOrTitle)"

definition add_item_to_project ::
  "env \<Rightarrow> remote \<Rightarrow> string \<Rightarrow> string \<Rightarrow> string option \<Rightarrow> string option \<Rightarrow> string option
     \<Rightarrow> string option \<Rightarrow> request list \<Rightarrow> (error + tool_result) \<times> request list" where
  "add_item_to_project e rem organization projectName projectId contentId title body calls =
     (case (if \<not> truthy projectId then getProjectId e rem organization projectName calls
            else (Inr (Some (JStr (the projectId))), calls)) of
        (Inl err, calls') \<Rightarrow> (Inl err, calls')
      | (Inr projectId', calls') \<Rightarrow>
          (case add_item_document projectId' contentId title body of
             Inl err \<Rightarrow> (Inl err, calls')
           | Inr (mutation, variables) \<Rightarrow>
               respond (executeGitHubGraphQL e rem mutation variables calls')))"

definition update_project_item_field ::
  "env \<Rightarrow> remote \<Rightarrow> string \<Rightarrow> string \<Rightarrow> string \<Rightarrow> string \<Rightarrow> request list
     \<Rightarrow> (error + tool_result) \<times> request list" where
  "update_project_item_field e rem projectId itemId fieldId val calls =
     respond (executeGitHubGraphQL e rem update_project_item_field_mutation
                (object_of [(''input'', Some (object_of
                   [(''projectId'', Some (JStr projectId)), (''itemId'', Some (JStr itemId)),
                    (''fieldId'', Some (JStr fieldId)), (''value'', Some (JStr val))]))])
                calls)"

definition get_repositories ::
  "env \<Rightarrow> remote \<Rightarrow> string \<Rightarrow> bool \<Rightarrow> rat \<Rightarrow> request list
     \<Rightarrow> (error + tool_result) \<times> request list" where
  "get_repositories e rem owner isOrg first calls =
     (let query = (if isOrg then get_repositories_query_org else get_repositories_query_user)
      in respond (executeGitHubGraphQL e rem query
                    (object_of [(''owner'', Some (JStr owner)), (''first'', Some (JNum first))])
                    calls))"

definition get_project_views ::
  "env \<Rightarrow> remote \<Rightarrow> string \<Rightarrow> request list \<Rightarrow> (error + tool_result) \<times> request list" where
  "get_project_views e rem projectId calls =
     respond (executeGitHubGraphQL e rem get_project_views_query
                (object_of [(''id'', Some (JStr projectId))]) calls)"

section \<open>The schemas and the dispatch\<close>

text \<open>
  The arguments of an invocation, by name; \<open>None\<close> is an argument that was not supplied.
\<close>

type_synonym params = "string \<Rightarrow> json option"

text \<open>
  The schema combinators that \<^verbatim>\<open>main.ts\<close> uses, with the behaviour of the validation library:
  a schema checks the value supplied under a name and gives the checked value or the issues.
  \<^verbatim>\<open>z.string()\<close>, \<^verbatim>\<open>z.number()\<close> and \<^verbatim>\<open>z.boolean()\<close> accept a value of their type only, so a
  missing value is an issue; \<^verbatim>\<open>.min\<close> and \<^verbatim>\<open>.max\<close> are inclusive bounds; \<^verbatim>\<open>z.enum\<close> accepts the
  listed strings; \<^verbatim>\<open>.optional()\<close> lets a missing value through; \<^verbatim>\<open>.default(d)\<close> checks \<open>d\<close> in
  place of a missing value.
\<close>

type_synonym 'a schema = "string \<Rightarrow> jsval \<Rightarrow> zod_issue list + 'a"

definition z_string :: "string schema" where
  "z_string name v = (case v of Some (JStr s) \<Rightarrow> Inr s | _ \<Rightarrow> Inl [Issue name invalid_type])"

definition z_number :: "rat schema" where
  "z_number name v = (case v of Some (JNum n) \<Rightarrow> Inr n | _ \<Rightarrow> Inl [Issue name invalid_type])"

definition z_boolean :: "bool schema" where
  "z_boolean name v = (case v of Some (JBool b) \<Rightarrow> Inr b | _ \<Rightarrow> Inl [Issue name invalid_type])"

definition z_enum :: "string list \<Rightarrow> string schema" where
  "z_enum values name v =
     (case v of
        Some (JStr s) \<Rightarrow> if s \<in> set values then Inr s else Inl [Issue name invalid_enum_value]
      | _ \<Rightarrow> Inl [Issue name invalid_type])"

definition z_min :: "rat \<Rightarrow> rat schema \<Rightarrow> rat schema" where
  "z_min m s name v =
     (case s name v of
        Inl issues \<Rightarrow> Inl issues
      | Inr n \<Rightarrow> if n < m then Inl [Issue name too_small] else Inr n)"

definition z_max :: "rat \<Rightarrow> rat schema \<Rightarrow> rat schema" where
  "z_max m s name v =
     (case s name v of
        Inl issues \<Rightarrow> Inl issues
      | Inr n \<Rightarrow> if m < n then Inl [Issue name too_big] else Inr n)"

definition z_optional :: "'a schema \<Rightarrow> 'a option schema" where
  "z_optional s name v =
     (case v of
        None \<Rightarrow> Inr None
      | Some j \<Rightarrow> (case s name v of Inl issues \<Rightarrow> Inl issues | Inr x \<Rightarrow> Inr (Some x)))"

definition z_default :: "json \<Rightarrow> 'a schema \<Rightarrow> 'a schema" where
  "z_default d s name v = (case v of None \<Rightarrow> s name (Some d) | Some j \<Rightarrow> s name v)"

definition issues_of :: "zod_issue list + 'a \<Rightarrow> zod_issue list" where
  "issues_of r = (case r of Inl issues \<Rightarrow> issues | Inr x \<Rightarrow> [])"

text \<open>\<^verbatim>\<open>first: z.number().min(1).max(100).default(20)\<close>, the same in three tools.\<close>

definition first_schema :: "rat schema" where
  "first_schema = z_default (JNum 20) (z_max 100 (z_min 1 z_number))"

text \<open>
  The schema of each tool: the checked arguments in the order of the callback's parameters,
  or all issues.
\<close>

definition organization_schema :: "params \<Rightarrow> error + string" where
  "organization_schema p =
     (case z_string ''organization'' (p ''organization'') of
        Inl issues \<Rightarrow> Inl (InvalidParams issues)
      | Inr organization \<Rightarrow> Inr organization)"

definition projectId_schema :: "params \<Rightarrow> error + string" where
  "projectId_schema p =
     (case z_string ''projectId'' (p ''projectId'') of
        Inl issues \<Rightarrow> Inl (InvalidParams issues)
      | Inr projectId \<Rightarrow> Inr projectId)"

definition get_repository_issues_schema :: "params \<Rightarrow> error + string \<times> string \<times> string \<times> rat" where
  "get_repository_issues_schema p =
     (let owner = z_string ''owner'' (p ''owner'');
          repo = z_string ''repo'' (p ''repo'');
          states = z_default (JStr ''OPEN'') (z_enum [''OPEN'', ''CLOSED'', ''ALL'']) ''states'' (p ''states'');
          first = first_schema ''first'' (p ''first'')
      in case (owner, repo, states, first) of
           (Inr a, Inr b, Inr c, Inr d) \<Rightarrow> Inr (a, b, c, d)
         | _ \<Rightarrow> Inl (InvalidParams
                     (issues_of owner @ issues_of repo @ issues_of states @ issues_of first)))"

definition get_repository_pull_requests_schema ::
  "params \<Rightarrow> error + string \<times> string \<times> string \<times> rat" where
  "get_repository_pull_requests_schema p =
     (let owner = z_string ''owner'' (p ''owner'');
          repo = z_string ''repo'' (p ''repo'');
          states = z_default (JStr ''OPEN'') (z_enum [''OPEN'', ''CLOSED'', ''MERGED'', ''ALL''])
                     ''states'' (p ''states'');
          first = first_schema ''first'' (p ''first'')
      in case (owner, repo, states, first) of
           (Inr a, Inr b, Inr c, Inr d) \<Rightarrow> Inr (a, b, c, d)
         | _ \<Rightarrow> Inl (InvalidParams
                     (issues_of owner @ issues_of repo @ issues_of states @ issues_of first)))"

definition add_item_to_project_schema ::
  "params \<Rightarrow> error + string \<times> string \<times> string option \<times> string option \<times> string option \<times> string option"
  where
  "add_item_to_project_schema p =
     (let organization = z_string ''organization'' (p ''organization'');
          projectName = z_string ''projectName'' (p ''projectName'');
          projectId = z_optional z_string ''projectId'' (p ''projectId'');
          contentId = z_optional z_string ''contentId'' (p ''contentId'');
          title = z_optional z_string ''title'' (p ''title'');
          body = z_optional z_string ''body'' (p ''body'')
      in case (organization, projectName, projectId, contentId, title, body) of
           (Inr a, Inr b, Inr c, Inr d, Inr f, Inr g) \<Rightarrow> Inr (a, b, c, d, f, g)
         | _ \<Rightarrow> Inl (InvalidParams
                     (issues_of organization @ issues_of projectName @ issues_of projectId
                      @ issues_of contentId @ issues_of title @ issues_of body)))"

definition update_project_item_field_schema ::
  "params \<Rightarrow> error + string \<times> string \<times> string \<times> string" where
  "update_project_item_field_schema p =
     (let projectId = z_string ''projectId'' (p ''projectId'');
          itemId = z_string ''itemId'' (p ''itemId'');
          fieldId = z_string ''fieldId'' (p ''fieldId'');
          val = z_string ''value'' (p ''value'')
      in case (projectId, itemId, fieldId, val) of
           (Inr a, Inr b, Inr c, Inr d) \<Rightarrow> Inr (a, b, c, d)
         | _ \<Rightarrow> Inl (InvalidParams
                     (issues_of projectId @ issues_of itemId @ issues_of fieldId @ issues_of val)))"

definition get_repositories_schema :: "params \<Rightarrow> error + string \<times> bool \<times> rat" where
  "get_repositories_schema p =
     (let owner = z_string ''owner'' (p ''owner'');
          isOrg = z_default (JBool False) z_boolean ''isOrg'' (p ''isOrg'');
          first = first_schema ''first'' (p ''first'')
      in case (owner, isOrg, first) of
           (Inr a, Inr b, Inr c) \<Rightarrow> Inr (a, b, c)
         | _ \<Rightarrow> Inl (InvalidParams (issues_of owner @ issues_of isOrg @ issues_of first)))"

text \<open>
  An invocation: the tool registered under the name checks the arguments against its schema
  and, when they fit, runs its callback, starting from an empty log of requests.
\<close>

definition invoke :: "env \<Rightarrow> remote \<Rightarrow> string \<Rightarrow> params \<Rightarrow> (error + tool_result) \<times> request list" where
  "invoke e rem name p =
     (if name = ''get_github_projects'' then
        (case organization_schema p of
           Inl err \<Rightarrow> (Inl err, [])
         | Inr organization \<Rightarrow> get_github_projects e rem organization [])
      else if name = ''get_project_details'' then
        (case projectId_schema p of
           Inl err \<Rightarrow> (Inl err, [])
         | Inr projectId \<Rightarrow> get_project_details e rem projectId [])
      else if name = ''get_repository_issues'' then
        (case get_repository_issues_schema p of
           Inl err \<Rightarrow> (Inl err, [])
         | Inr (owner, repo, states, first) \<Rightarrow> get_repository_issues e rem owner repo states first [])
      else if name = ''get_repository_pull_requests'' then
        (case get_repository_pull_requests_schema p of
           Inl err \<Rightarrow> (Inl err, [])
         | Inr (owner, repo, states, first) \<Rightarrow>
             get_repository_pull_requests e rem owner repo states first [])
      else if name = ''add_item_to_project'' then
        (case add_item_to_project_schema p of
           Inl err \<Rightarrow> (Inl err, [])
         | Inr (organization, projectName, projectId, contentId, title, body) \<Rightarrow>
             add_item_to_project e rem organization projectName projectId contentId title body [])
      else if name = ''update_project_item_field'' then
        (case update_project_item_field_schema p of
           Inl err \<Rightarrow> (Inl err, [])
         | Inr (projectId, itemId, fieldId, val) \<Rightarrow>
             update_project_item_field e rem projectId itemId fieldId val [])
      else if name = ''get_repositories'' then
        (case get_repositories_schema p of
           Inl err \<Rightarrow> (Inl err, [])
         | Inr (owner, isOrg, first) \<Rightarrow> get_repositories e rem owner isOrg first [])
      else if name = ''get_project_views'' then
        (case projectId_schema p of
           Inl err \<Rightarrow> (Inl err, [])
         | Inr projectId \<Rightarrow> get_project_views e rem projectId [])
      else (Inl (Unregistered name), []))"

section \<open>Remote behaviours and arguments used in the examples\<close>

text \<open>A remote that answers every request with status 200 and the given body.\<close>

definition answers :: "string \<Rightarrow> json \<Rightarrow> remote" where
  "answers raw j calls r = Responded \<lparr>status = 200, text_body = raw, json_body = Some j\<rparr>"

text \<open>A success whose body holds GraphQL errors and no data.\<close>

definition errors_body :: json where
  "errors_body = JObj [(''errors'', JArr [JObj [(''message'', JStr ''Not authorized'')]])]"

definition errors_only :: remote where
  "errors_only = answers ''{\"errors\":[{\"message\":\"Not authorized\"}]}'' errors_body"

text \<open>A remote that refuses every request: status 401.\<close>

definition unauthorized :: remote where
  "unauthorized calls r =
     Responded \<lparr>status = 401, text_body = ''Bad credentials'', json_body = None\<rparr>"

text \<open>A remote that is never reached.\<close>

definition unreachable :: remote where
  "unreachable calls r = Rejected ''connection refused''"

text \<open>The answer to the project lookup that lists the given projects.\<close>

definition lookup_answer :: "json list \<Rightarrow> json" where
  "lookup_answer nodes =
     JObj [(''data'', JObj [(''organization'', JObj [(''projectsV2'', JObj [(''nodes'', JArr nodes)])])])]"

definition no_projects :: remote where
  "no_projects =
     answers ''{\"data\":{\"organization\":{\"projectsV2\":{\"nodes\":[]}}}}'' (lookup_answer [])"

text \<open>A lookup that finds one project, whose title is not the name asked for.\<close>

definition archive_project :: json where
  "archive_project = JObj [(''id'', JStr ''PVT_2''), (''title'', JStr ''Roadmap archive'')]"

definition other_project :: remote where
  "other_project =
     answers
       ''{\"data\":{\"organization\":{\"projectsV2\":{\"nodes\":[{\"id\":\"PVT_2\",\"title\":\"Roadmap archive\"}]}}}}''
       (lookup_answer [archive_project])"

text \<open>The request of the project lookup.\<close>

definition lookup_request :: "string \<Rightarrow> string \<Rightarrow> string \<Rightarrow> request" where
  "lookup_request token organization projectName =
     graphql_request token getProjectId_query
       (JObj [(''org'', JStr organization), (''projectName'', JStr projectName)])"

text \<open>The names under which \<^verbatim>\<open>main.ts\<close> registers a tool.\<close>

definition tool_names :: "string list" where
  "tool_names =
     [''get_github_projects'', ''get_project_details'', ''get_repository_issues'',
      ''get_repository_pull_requests'', ''add_item_to_project'', ''update_project_item_field'',
      ''get_repositories'', ''get_project_views'']"


section \<open>Invariants of the log of requests\<close>

text \<open>
  \<open>all_ok\<close>: every request of the log was answered with a success status. \<open>settled\<close>: a
  request of the log that was answered with another status has decided the outcome, which
  is the error that carries this status and body.
\<close>

definition all_ok :: "remote \<Rightarrow> request list \<Rightarrow> bool" where
  "all_ok rem sent =
     (\<forall>i<length sent. \<exists>resp. rem (take i sent) (sent ! i) = Responded resp \<and> ok resp)"

definition settled :: "remote \<Rightarrow> (error + 'a) \<times> request list \<Rightarrow> bool" where
  "settled rem out =
     (\<forall>i<length (snd out). \<forall>resp.
        rem (take i (snd out)) (snd out ! i) = Responded resp \<and> \<not> ok resp \<longrightarrow>
        fst out = Inl (GitHubApiError (status resp) (text_body resp)))"

section \<open>The documents of an invocation\<close>

text \<open>An argument that is a string and not the empty one.\<close>

definition nonempty_string :: "jsval \<Rightarrow> bool" where
  "nonempty_string v = (case v of Some (JStr s) \<Rightarrow> s \<noteq> [] | _ \<Rightarrow> False)"

text \<open>The documents that the tools and \<^verbatim>\<open>getProjectId\<close> pass to \<^verbatim>\<open>executeGitHubGraphQL\<close>.\<close>

definition all_documents :: "string list" where
  "all_documents =
     [getProjectId_query, get_github_projects_query, get_project_details_query,
      get_repository_issues_query, get_repository_pull_requests_query,
      add_item_to_project_mutation_content, add_item_to_project_mutation_draft,
      update_project_item_field_mutation, get_repositories_query_org, get_repositories_query_user,
      get_project_views_query]"

text \<open>
  The documents of the calls that a tool makes when every call succeeds, in their order, as
  far as the arguments decide them: \<^verbatim>\<open>isOrg\<close> chooses between the two documents of
  \<^verbatim>\<open>get_repositories\<close>; in \<^verbatim>\<open>add_item_to_project\<close> the lookup is made unless \<^verbatim>\<open>projectId\<close> is a
  non-empty string, and the mutation is chosen by whether \<^verbatim>\<open>contentId\<close> and \<^verbatim>\<open>title\<close> are
  non-empty strings.
\<close>

definition planned :: "string \<Rightarrow> params \<Rightarrow> string list" where
  "planned name p =
     (if name = ''get_github_projects'' then [get_github_projects_query]
      else if name = ''get_project_details'' then [get_project_details_query]
      else if name = ''get_repository_issues'' then [get_repository_issues_query]
      else if name = ''get_repository_pull_requests'' then [get_repository_pull_requests_query]
      else if name = ''add_item_to_project'' then
        (if nonempty_string (p ''projectId'') then [] else [getProjectId_query])
        @ (if nonempty_string (p ''contentId'') then [add_item_to_project_mutation_content]
           else if nonempty_string (p ''title'') then [add_item_to_project_mutation_draft]
           else [])
      else if name = ''update_project_item_field'' then [update_project_item_field_mutation]
      else if name = ''get_repositories'' then
        [if p ''isOrg'' = Some (JBool True) then get_repositories_query_org
         else get_repositories_query_user]
      else if name = ''get_project_views'' then [get_project_views_query]
      else [])"


section \<open>Arguments that a tool accepts\<close>

text \<open>The name is registered and the arguments fit the schema of the tool.\<close>

definition fits :: "error + 'a \<Rightarrow> bool" where
  "fits r = (case r of Inl err \<Rightarrow> False | Inr x \<Rightarrow> True)"

definition accepts :: "string \<Rightarrow> params \<Rightarrow> bool" where
  "accepts name p =
     (if name = ''get_github_projects'' then fits (organization_schema p)
      else if name = ''get_project_details'' then fits (projectId_schema p)
      else if name = ''get_repository_issues'' then fits (get_repository_issues_schema p)
      else if name = ''get_repository_pull_requests'' then fits (get_repository_pull_requests_schema p)
      else if name = ''add_item_to_project'' then fits (add_item_to_project_schema p)
      else if name = ''update_project_item_field'' then fits (update_project_item_field_schema p)
      else if name = ''get_repositories'' then fits (get_repositories_schema p)
      else if name = ''get_project_views'' then fits (projectId_schema p)
      else False)"
section \<open>Facts about the remote call\<close>

lemma exec_no_token:
  "\<not> truthy (GITHUB_TOKEN e) \<Longrightarrow> executeGitHubGraphQL e rem q v calls = (Inl TokenNotSet, calls)"
  by (simp add: executeGitHubGraphQL_def)

lemma exec_sent:
  "truthy (GITHUB_TOKEN e) \<Longrightarrow>
     snd (executeGitHubGraphQL e rem q v calls) = calls @ [graphql_request (the (GITHUB_TOKEN e)) q v]"
  by (simp add: executeGitHubGraphQL_def Let_def split: fetch_outcome.splits option.splits)

lemma exec_success:
  assumes "executeGitHubGraphQL e rem q v calls = (Inr j, sent)"
  shows "truthy (GITHUB_TOKEN e) \<and> sent = calls @ [graphql_request (the (GITHUB_TOKEN e)) q v]
         \<and> (\<exists>resp. rem calls (graphql_request (the (GITHUB_TOKEN e)) q v) = Responded resp
                \<and> ok resp \<and> json_body resp = Some j)"
  using assms
  by (auto simp: executeGitHubGraphQL_def Let_def split: if_splits fetch_outcome.splits option.splits)

lemma respond_sent: "snd (respond r) = snd r"
  by (cases r) (auto simp: respond_def split: sum.splits)

lemma respond_success:
  "respond r = (Inr res, sent) \<Longrightarrow> \<exists>j. r = (Inr j, sent) \<and> res = \<lparr>content = [TextOfJson j]\<rparr>"
  by (cases r) (auto simp: respond_def split: sum.splits)

lemma respond_failure: "respond (Inl err, sent) = (Inl err, sent)"
  by (simp add: respond_def)

declare show_nat.simps [simp del]

section \<open>Facts about the log of requests\<close>

lemma all_ok_Nil: "all_ok rem []"
  by (simp add: all_ok_def)

lemma all_ok_snoc:
  "all_ok rem (calls @ [r]) \<longleftrightarrow>
     all_ok rem calls \<and> (\<exists>resp. rem calls r = Responded resp \<and> ok resp)"
  by (auto simp: all_ok_def less_Suc_eq nth_append)

lemma all_ok_settled: "all_ok rem sent \<Longrightarrow> settled rem (r, sent)"
  by (auto simp: all_ok_def settled_def)

lemma settled_snoc:
  "all_ok rem calls \<Longrightarrow>
   (\<forall>resp. rem calls r = Responded resp \<and> \<not> ok resp \<longrightarrow>
      out = Inl (GitHubApiError (status resp) (text_body resp))) \<Longrightarrow>
   settled rem (out, calls @ [r])"
  by (auto simp: all_ok_def settled_def less_Suc_eq nth_append)

lemma exec_all_ok:
  "all_ok rem calls \<Longrightarrow> executeGitHubGraphQL e rem q v calls = (Inr j, sent) \<Longrightarrow> all_ok rem sent"
  using exec_success [of e rem q v calls j sent] by (auto simp: all_ok_snoc)

lemma exec_settled:
  assumes "all_ok rem calls"
  shows "settled rem (executeGitHubGraphQL e rem q v calls)"
proof (cases "truthy (GITHUB_TOKEN e)")
  case False
  then show ?thesis using assms by (simp add: exec_no_token all_ok_settled)
next
  case True
  then show ?thesis using assms
    by (auto simp: executeGitHubGraphQL_def Let_def intro!: settled_snoc
             split: fetch_outcome.splits option.splits)
qed

lemma settled_failure:
  "settled rem (Inl err :: error + 'a, sent) \<Longrightarrow> settled rem (Inl err :: error + 'b, sent)"
  by (simp add: settled_def)

lemma respond_settled: "settled rem r \<Longrightarrow> settled rem (respond r)"
  by (cases r) (auto simp: respond_def settled_def split: sum.splits)

lemma getProjectId_settled: "all_ok rem calls \<Longrightarrow> settled rem (getProjectId e rem org pn calls)"
proof -
  assume a: "all_ok rem calls"
  obtain r sent where x: "executeGitHubGraphQL e rem getProjectId_query
             (object_of [(''org'', Some (JStr org)), (''projectName'', Some (JStr pn))]) calls = (r, sent)"
    by (cases "executeGitHubGraphQL e rem getProjectId_query
             (object_of [(''org'', Some (JStr org)), (''projectName'', Some (JStr pn))]) calls") auto
  show ?thesis
  proof (cases r)
    case (Inl err)
    with x exec_settled [OF a, of e getProjectId_query
             "object_of [(''org'', Some (JStr org)), (''projectName'', Some (JStr pn))]"]
    show ?thesis by (auto simp: getProjectId_def intro: settled_failure)
  next
    case (Inr j)
    with x exec_all_ok [OF a, of e getProjectId_query _ j sent]
    show ?thesis by (simp add: getProjectId_def all_ok_settled)
  qed
qed

lemma getProjectId_all_ok:
  "all_ok rem calls \<Longrightarrow> getProjectId e rem org pn calls = (Inr v, sent) \<Longrightarrow> all_ok rem sent"
  by (auto simp: getProjectId_def split: prod.splits sum.splits dest: exec_all_ok)

lemma add_item_settled:
  assumes "all_ok rem calls"
  shows "settled rem (add_item_to_project e rem org pn pid cid title body calls)"
proof -
  define start where "start = (if \<not> truthy pid then getProjectId e rem org pn calls
            else (Inr (Some (JStr (the pid))), calls))"
  obtain r sent where s: "start = (r, sent)" by (cases start) auto
  have st: "settled rem start"
    using assms by (simp add: start_def getProjectId_settled all_ok_settled)
  show ?thesis
  proof (cases r)
    case (Inl err)
    with s st show ?thesis
      by (auto simp: add_item_to_project_def start_def [symmetric] intro: settled_failure)
  next
    case (Inr v)
    have ok: "all_ok rem sent"
      using s Inr assms getProjectId_all_ok [of rem calls e org pn v sent]
      by (auto simp: start_def split: if_splits)
    show ?thesis
    proof (cases "add_item_document v cid title body")
      case (Inl err)
      with s Inr ok show ?thesis
        by (simp add: add_item_to_project_def start_def [symmetric] all_ok_settled)
    next
      case (Inr mv)
      with s \<open>r = Inr v\<close> ok show ?thesis
        by (cases mv) (simp add: add_item_to_project_def start_def [symmetric] respond_settled exec_settled)
    qed
  qed
qed

lemma invoke_settled: "settled rem (invoke e rem name p)"
  by (auto simp: invoke_def all_ok_Nil all_ok_settled add_item_settled respond_settled exec_settled
        get_github_projects_def get_project_details_def get_repository_issues_def
        get_repository_pull_requests_def update_project_item_field_def get_repositories_def
        get_project_views_def Let_def
      split: sum.splits)


lemma show_401: "show_nat 401 = ''401''"
  by code_simp

section \<open>A success is passed through\<close>

text \<open>
  C7. When the credential is set and the remote answers a call of \<open>executeGitHubGraphQL\<close>
  with a success status and a body that parses, the call returns the parsed body itself,
  whatever it holds: a body with an \<^verbatim>\<open>errors\<close> array, with or without \<^verbatim>\<open>data\<close>, is returned
  like any other, and the one request of the call is added to the log.
\<close>

theorem executor_passes_body_through:
  assumes "truthy (GITHUB_TOKEN e)"
    and "rem calls (graphql_request (the (GITHUB_TOKEN e)) query variables) = Responded resp"
    and "ok resp"
    and "json_body resp = Some j"
  shows "executeGitHubGraphQL e rem query variables calls =
           (Inr j, calls @ [graphql_request (the (GITHUB_TOKEN e)) query variables])"
  using assms by (simp add: executeGitHubGraphQL_def Let_def)

theorem executor_passes_body_through_witness:
  "executeGitHubGraphQL \<lparr>GITHUB_TOKEN = Some ''t''\<rparr> errors_only get_project_views_query
      (JObj [(''id'', JStr ''PVT_1'')]) [] =
     (Inr errors_body, [graphql_request ''t'' get_project_views_query (JObj [(''id'', JStr ''PVT_1'')])])"
  using executor_passes_body_through [of "\<lparr>GITHUB_TOKEN = Some ''t''\<rparr>" errors_only "[]"
      get_project_views_query "JObj [(''id'', JStr ''PVT_1'')]"
      "\<lparr>status = 200, text_body = ''{\"errors\":[{\"message\":\"Not authorized\"}]}'',
        json_body = Some errors_body\<rparr>"
      errors_body]
  by (simp add: truthy_def errors_only_def answers_def ok_def)

section \<open>A non-success status is an error\<close>

text \<open>
  C6. When the credential is set and the remote answers a call of \<open>executeGitHubGraphQL\<close>
  with a status outside 200 to 299, the call fails with the error whose message is
  \<^verbatim>\<open>GitHub API error (status): body\<close>, made of that status and of the raw body, after the one
  request. The same holds for a whole invocation: if any request of its log was answered
  with such a status, the invocation ends with that error and not with a result.
\<close>

theorem non_success_is_upstream_error:
  assumes "truthy (GITHUB_TOKEN e)"
    and "rem calls (graphql_request (the (GITHUB_TOKEN e)) query variables) = Responded resp"
    and "\<not> ok resp"
  shows "executeGitHubGraphQL e rem query variables calls =
           (Inl (GitHubApiError (status resp) (text_body resp)),
            calls @ [graphql_request (the (GITHUB_TOKEN e)) query variables])
       \<and> message (GitHubApiError (status resp) (text_body resp)) =
           Some (''GitHub API error ('' @ show_nat (status resp) @ ''): '' @ text_body resp)
       \<and> kind_of (GitHubApiError (status resp) (text_body resp)) = UpstreamError
       \<and> (\<forall>name p i resp'.
             i < length (snd (invoke e rem name p))
             \<and> rem (take i (snd (invoke e rem name p))) (snd (invoke e rem name p) ! i) = Responded resp'
             \<and> \<not> ok resp'
             \<longrightarrow> fst (invoke e rem name p) = Inl (GitHubApiError (status resp') (text_body resp')))"
proof -
  have "executeGitHubGraphQL e rem query variables calls =
           (Inl (GitHubApiError (status resp) (text_body resp)),
            calls @ [graphql_request (the (GITHUB_TOKEN e)) query variables])"
    using assms by (simp add: executeGitHubGraphQL_def Let_def)
  moreover have "\<forall>name p i resp'.
             i < length (snd (invoke e rem name p))
             \<and> rem (take i (snd (invoke e rem name p))) (snd (invoke e rem name p) ! i) = Responded resp'
             \<and> \<not> ok resp'
             \<longrightarrow> fst (invoke e rem name p) = Inl (GitHubApiError (status resp') (text_body resp'))"
    using invoke_settled [of rem e] unfolding settled_def by blast
  ultimately show ?thesis by simp
qed

theorem non_success_is_upstream_error_witness:
  "executeGitHubGraphQL \<lparr>GITHUB_TOKEN = Some ''t''\<rparr> unauthorized get_project_views_query
      (JObj [(''id'', JStr ''PVT_1'')]) [] =
     (Inl (GitHubApiError 401 ''Bad credentials''),
      [graphql_request ''t'' get_project_views_query (JObj [(''id'', JStr ''PVT_1'')])])
   \<and> message (GitHubApiError 401 ''Bad credentials'') = Some ''GitHub API error (401): Bad credentials''
   \<and> fst (invoke \<lparr>GITHUB_TOKEN = Some ''t''\<rparr> unauthorized ''get_project_views''
             [''projectId'' \<mapsto> JStr ''PVT_1'']) = Inl (GitHubApiError 401 ''Bad credentials'')"
proof -
  let ?e = "\<lparr>GITHUB_TOKEN = Some ''t''\<rparr>"
  let ?resp = "\<lparr>status = 401, text_body = ''Bad credentials'', json_body = None\<rparr>"
  have t: "truthy (GITHUB_TOKEN ?e)" by (simp add: truthy_def)
  have r: "unauthorized [] (graphql_request (the (GITHUB_TOKEN ?e)) get_project_views_query
             (JObj [(''id'', JStr ''PVT_1'')])) = Responded ?resp"
    by (simp add: unauthorized_def)
  have n: "\<not> ok ?resp" by (simp add: ok_def)
  note main = non_success_is_upstream_error [of ?e unauthorized "[]" get_project_views_query
      "JObj [(''id'', JStr ''PVT_1'')]" ?resp, OF t r n]
  have sent: "snd (invoke ?e unauthorized ''get_project_views'' [''projectId'' \<mapsto> JStr ''PVT_1'']) =
          [graphql_request ''t'' get_project_views_query (JObj [(''id'', JStr ''PVT_1'')])]"
    by (simp add: invoke_def projectId_schema_def z_string_def get_project_views_def respond_sent
          exec_sent truthy_def object_of_def)
  from main have "fst (invoke ?e unauthorized ''get_project_views'' [''projectId'' \<mapsto> JStr ''PVT_1''])
      = Inl (GitHubApiError (status ?resp) (text_body ?resp))"
    using sent r n by (auto simp: unauthorized_def)
  with main show ?thesis by (simp add: show_401)
qed

section \<open>The schemas\<close>

lemma organization_schema_failure:
  "organization_schema p = Inl err \<Longrightarrow> \<exists>issues. err = InvalidParams issues"
  by (auto simp: organization_schema_def split: sum.splits)

lemma projectId_schema_failure:
  "projectId_schema p = Inl err \<Longrightarrow> \<exists>issues. err = InvalidParams issues"
  by (auto simp: projectId_schema_def split: sum.splits)

lemma get_repository_issues_schema_failure:
  "get_repository_issues_schema p = Inl err \<Longrightarrow> \<exists>issues. err = InvalidParams issues"
  by (auto simp: get_repository_issues_schema_def Let_def split: sum.splits)

lemma get_repository_pull_requests_schema_failure:
  "get_repository_pull_requests_schema p = Inl err \<Longrightarrow> \<exists>issues. err = InvalidParams issues"
  by (auto simp: get_repository_pull_requests_schema_def Let_def split: sum.splits)

lemma add_item_to_project_schema_failure:
  "add_item_to_project_schema p = Inl err \<Longrightarrow> \<exists>issues. err = InvalidParams issues"
  by (auto simp: add_item_to_project_schema_def Let_def split: sum.splits)

lemma update_project_item_field_schema_failure:
  "update_project_item_field_schema p = Inl err \<Longrightarrow> \<exists>issues. err = InvalidParams issues"
  by (auto simp: update_project_item_field_schema_def Let_def split: sum.splits)

lemma get_repositories_schema_failure:
  "get_repositories_schema p = Inl err \<Longrightarrow> \<exists>issues. err = InvalidParams issues"
  by (auto simp: get_repositories_schema_def Let_def split: sum.splits)

lemmas schema_failure =
  organization_schema_failure projectId_schema_failure get_repository_issues_schema_failure
  get_repository_pull_requests_schema_failure add_item_to_project_schema_failure
  update_project_item_field_schema_failure get_repositories_schema_failure

lemma z_optional_string_value:
  "z_optional z_string name v = Inr x \<Longrightarrow> x = (case v of Some (JStr s) \<Rightarrow> Some s | _ \<Rightarrow> None)"
  by (auto simp: z_optional_def z_string_def split: option.splits json.splits sum.splits)

lemma add_item_to_project_schema_success:
  assumes "add_item_to_project_schema p = Inr (org, pn, pid, cid, title, body)"
  shows "p ''organization'' = Some (JStr org)" and "p ''projectName'' = Some (JStr pn)"
    and "pid = (case p ''projectId'' of Some (JStr s) \<Rightarrow> Some s | _ \<Rightarrow> None)"
    and "cid = (case p ''contentId'' of Some (JStr s) \<Rightarrow> Some s | _ \<Rightarrow> None)"
    and "title = (case p ''title'' of Some (JStr s) \<Rightarrow> Some s | _ \<Rightarrow> None)"
    and "body = (case p ''body'' of Some (JStr s) \<Rightarrow> Some s | _ \<Rightarrow> None)"
  using assms
  by (auto simp: add_item_to_project_schema_def Let_def z_string_def
           split: sum.splits option.splits json.splits dest: z_optional_string_value)

section \<open>The absent credential\<close>

lemma add_item_no_token:
  assumes "\<not> truthy (GITHUB_TOKEN e)"
  shows "add_item_to_project e rem org pn pid cid title body calls =
           (if truthy pid \<and> \<not> truthy cid \<and> \<not> truthy title then (Inl ContentIdOrTitle, calls)
            else (Inl TokenNotSet, calls))"
  using assms
  by (simp add: add_item_to_project_def getProjectId_def exec_no_token add_item_document_def
        respond_failure)

lemma tools_no_token:
  assumes "\<not> truthy (GITHUB_TOKEN e)"
  shows "get_github_projects e rem organization calls = (Inl TokenNotSet, calls)"
    and "get_project_details e rem projectId calls = (Inl TokenNotSet, calls)"
    and "get_repository_issues e rem owner repo states first calls = (Inl TokenNotSet, calls)"
    and "get_repository_pull_requests e rem owner repo states first calls = (Inl TokenNotSet, calls)"
    and "update_project_item_field e rem projectId itemId fieldId val calls = (Inl TokenNotSet, calls)"
    and "get_repositories e rem owner isOrg first calls = (Inl TokenNotSet, calls)"
    and "get_project_views e rem projectId calls = (Inl TokenNotSet, calls)"
  using assms
  by (simp_all add: get_github_projects_def get_project_details_def get_repository_issues_def
        get_repository_pull_requests_def update_project_item_field_def get_repositories_def
        get_project_views_def Let_def exec_no_token respond_failure)

lemma add_item_invoke_no_token:
  assumes "\<not> truthy (GITHUB_TOKEN e)"
  shows "\<exists>err. (case add_item_to_project_schema p of
                 Inl err \<Rightarrow> (Inl err, [])
               | Inr (organization, projectName, projectId, contentId, title, body) \<Rightarrow>
                   add_item_to_project e rem organization projectName projectId contentId title body [])
               = (Inl err, [])
           \<and> (err = TokenNotSet \<or> (\<exists>issues. err = InvalidParams issues)
                \<or> (err = ContentIdOrTitle \<and> (\<exists>s. p ''projectId'' = Some (JStr s) \<and> s \<noteq> [])))"
proof (cases "add_item_to_project_schema p")
  case (Inl err)
  then show ?thesis using add_item_to_project_schema_failure [of p err] by auto
next
  case (Inr args)
  obtain org pn pid cid title body where args: "args = (org, pn, pid, cid, title, body)"
    by (cases args) auto
  have pid: "pid = (case p ''projectId'' of Some (JStr s) \<Rightarrow> Some s | _ \<Rightarrow> None)"
    using Inr args by (simp add: add_item_to_project_schema_success(3))
  have "truthy pid \<Longrightarrow> \<exists>s. p ''projectId'' = Some (JStr s) \<and> s \<noteq> []"
    unfolding pid by (auto simp: truthy_def split: option.splits json.splits)
  then show ?thesis
    using Inr args assms by (auto simp: add_item_no_token)
qed

section \<open>The dispatch, tool by tool\<close>

lemma invoke_tool:
  "invoke e rem ''get_github_projects'' p =
     (case organization_schema p of
        Inl err \<Rightarrow> (Inl err, [])
      | Inr organization \<Rightarrow> get_github_projects e rem organization [])"
  "invoke e rem ''get_project_details'' p =
     (case projectId_schema p of
        Inl err \<Rightarrow> (Inl err, [])
      | Inr projectId \<Rightarrow> get_project_details e rem projectId [])"
  "invoke e rem ''get_repository_issues'' p =
     (case get_repository_issues_schema p of
        Inl err \<Rightarrow> (Inl err, [])
      | Inr (owner, repo, states, first) \<Rightarrow> get_repository_issues e rem owner repo states first [])"
  "invoke e rem ''get_repository_pull_requests'' p =
     (case get_repository_pull_requests_schema p of
        Inl err \<Rightarrow> (Inl err, [])
      | Inr (owner, repo, states, first) \<Rightarrow>
          get_repository_pull_requests e rem owner repo states first [])"
  "invoke e rem ''add_item_to_project'' p =
     (case add_item_to_project_schema p of
        Inl err \<Rightarrow> (Inl err, [])
      | Inr (organization, projectName, projectId, contentId, title, body) \<Rightarrow>
          add_item_to_project e rem organization projectName projectId contentId title body [])"
  "invoke e rem ''update_project_item_field'' p =
     (case update_project_item_field_schema p of
        Inl err \<Rightarrow> (Inl err, [])
      | Inr (projectId, itemId, fieldId, val) \<Rightarrow>
          update_project_item_field e rem projectId itemId fieldId val [])"
  "invoke e rem ''get_repositories'' p =
     (case get_repositories_schema p of
        Inl err \<Rightarrow> (Inl err, [])
      | Inr (owner, isOrg, first) \<Rightarrow> get_repositories e rem owner isOrg first [])"
  "invoke e rem ''get_project_views'' p =
     (case projectId_schema p of
        Inl err \<Rightarrow> (Inl err, [])
      | Inr projectId \<Rightarrow> get_project_views e rem projectId [])"
  by (simp_all add: invoke_def)

lemma exec_sent_cases:
  "snd (executeGitHubGraphQL e rem q v calls) = calls
   \<or> snd (executeGitHubGraphQL e rem q v calls) = calls @ [graphql_request (the (GITHUB_TOKEN e)) q v]"
  by (cases "truthy (GITHUB_TOKEN e)") (simp_all add: exec_sent exec_no_token)


lemma query_of_request: "query_of (graphql_request token q v) = Some (JStr q)"
  by (simp add: query_of_def graphql_request_def)


lemma first_schema_default: "first_schema ''first'' None = Inr 20"
  by (simp add: first_schema_def z_default_def z_max_def z_min_def z_number_def)

lemma first_schema_in_range:
  "1 \<le> n \<Longrightarrow> n \<le> 100 \<Longrightarrow> first_schema ''first'' (Some (JNum n)) = Inr n"
  by (simp add: first_schema_def z_default_def z_max_def z_min_def z_number_def)




lemma exec_sent_member:
  "r \<in> set (snd (executeGitHubGraphQL e rem q v [])) \<Longrightarrow>
     r = graphql_request (the (GITHUB_TOKEN e)) q v"
  using exec_sent_cases [of e rem q v "[]"] by auto


section \<open>The parameter \<^verbatim>\<open>first\<close>\<close>



section \<open>The parameter \<^verbatim>\<open>states\<close>\<close>

lemma states_schema_issues:
  assumes "p ''owner'' = Some (JStr owner)" and "p ''repo'' = Some (JStr repo)"
    and "p ''states'' = Some (JStr s)" and "first_schema ''first'' (p ''first'') = Inr n"
    and "s \<in> set [''OPEN'', ''CLOSED'', ''ALL'']"
  shows "get_repository_issues_schema p = Inr (owner, repo, s, n)"
  using assms
  by (simp add: get_repository_issues_schema_def z_string_def z_default_def z_enum_def)

lemma states_schema_pull_requests:
  assumes "p ''owner'' = Some (JStr owner)" and "p ''repo'' = Some (JStr repo)"
    and "p ''states'' = Some (JStr s)" and "first_schema ''first'' (p ''first'') = Inr n"
    and "s \<in> set [''OPEN'', ''CLOSED'', ''MERGED'', ''ALL'']"
  shows "get_repository_pull_requests_schema p = Inr (owner, repo, s, n)"
  using assms
  by (simp add: get_repository_pull_requests_schema_def z_string_def z_default_def z_enum_def)

text \<open>
  C4. With the credential set and the other arguments valid, \<^verbatim>\<open>get_repository_issues\<close>
  transmits one request whose variable \<^verbatim>\<open>states\<close> is \<^verbatim>\<open>["OPEN","CLOSED"]\<close> when \<^verbatim>\<open>states\<close> is
  \<^verbatim>\<open>"ALL"\<close> and the one-element list of the supplied value otherwise;
  \<^verbatim>\<open>get_repository_pull_requests\<close> does the same with \<^verbatim>\<open>["OPEN","CLOSED","MERGED"]\<close>.
\<close>

theorem states_all_is_expanded:
  assumes "truthy (GITHUB_TOKEN e)"
    and "p ''owner'' = Some (JStr owner)" and "p ''repo'' = Some (JStr repo)"
    and "p ''states'' = Some (JStr s)"
    and "first_schema ''first'' (p ''first'') = Inr n"
  shows "(s \<in> set [''OPEN'', ''CLOSED'', ''ALL''] \<longrightarrow>
           snd (invoke e rem ''get_repository_issues'' p) =
             [graphql_request (the (GITHUB_TOKEN e)) get_repository_issues_query
                (JObj [(''owner'', JStr owner), (''repo'', JStr repo),
                       (''states'', JArr (if s = ''ALL'' then [JStr ''OPEN'', JStr ''CLOSED'']
                                          else [JStr s])),
                       (''first'', JNum n)])])
       \<and> (s \<in> set [''OPEN'', ''CLOSED'', ''MERGED'', ''ALL''] \<longrightarrow>
           snd (invoke e rem ''get_repository_pull_requests'' p) =
             [graphql_request (the (GITHUB_TOKEN e)) get_repository_pull_requests_query
                (JObj [(''owner'', JStr owner), (''repo'', JStr repo),
                       (''states'', JArr (if s = ''ALL''
                                          then [JStr ''OPEN'', JStr ''CLOSED'', JStr ''MERGED'']
                                          else [JStr s])),
                       (''first'', JNum n)])])"
proof (intro conjI impI)
  assume "s \<in> set [''OPEN'', ''CLOSED'', ''ALL'']"
  from states_schema_issues [OF assms(2-5) this] assms(1)
  show "snd (invoke e rem ''get_repository_issues'' p) =
             [graphql_request (the (GITHUB_TOKEN e)) get_repository_issues_query
                (JObj [(''owner'', JStr owner), (''repo'', JStr repo),
                       (''states'', JArr (if s = ''ALL'' then [JStr ''OPEN'', JStr ''CLOSED'']
                                          else [JStr s])),
                       (''first'', JNum n)])]"
    by (simp add: invoke_tool get_repository_issues_def respond_sent exec_sent object_of_def)
next
  assume "s \<in> set [''OPEN'', ''CLOSED'', ''MERGED'', ''ALL'']"
  from states_schema_pull_requests [OF assms(2-5) this] assms(1)
  show "snd (invoke e rem ''get_repository_pull_requests'' p) =
             [graphql_request (the (GITHUB_TOKEN e)) get_repository_pull_requests_query
                (JObj [(''owner'', JStr owner), (''repo'', JStr repo),
                       (''states'', JArr (if s = ''ALL''
                                          then [JStr ''OPEN'', JStr ''CLOSED'', JStr ''MERGED'']
                                          else [JStr s])),
                       (''first'', JNum n)])]"
    by (simp add: invoke_tool get_repository_pull_requests_def respond_sent exec_sent object_of_def)
qed

theorem states_all_is_expanded_witness:
  "snd (invoke \<lparr>GITHUB_TOKEN = Some ''t''\<rparr> unauthorized ''get_repository_issues''
          [''owner'' \<mapsto> JStr ''acme'', ''repo'' \<mapsto> JStr ''site'', ''states'' \<mapsto> JStr ''ALL'']) =
     [graphql_request ''t'' get_repository_issues_query
        (JObj [(''owner'', JStr ''acme''), (''repo'', JStr ''site''),
               (''states'', JArr [JStr ''OPEN'', JStr ''CLOSED'']), (''first'', JNum 20)])]
   \<and> snd (invoke \<lparr>GITHUB_TOKEN = Some ''t''\<rparr> unauthorized ''get_repository_pull_requests''
          [''owner'' \<mapsto> JStr ''acme'', ''repo'' \<mapsto> JStr ''site'', ''states'' \<mapsto> JStr ''ALL'']) =
     [graphql_request ''t'' get_repository_pull_requests_query
        (JObj [(''owner'', JStr ''acme''), (''repo'', JStr ''site''),
               (''states'', JArr [JStr ''OPEN'', JStr ''CLOSED'', JStr ''MERGED'']),
               (''first'', JNum 20)])]
   \<and> snd (invoke \<lparr>GITHUB_TOKEN = Some ''t''\<rparr> unauthorized ''get_repository_pull_requests''
          [''owner'' \<mapsto> JStr ''acme'', ''repo'' \<mapsto> JStr ''site'', ''states'' \<mapsto> JStr ''MERGED'']) =
     [graphql_request ''t'' get_repository_pull_requests_query
        (JObj [(''owner'', JStr ''acme''), (''repo'', JStr ''site''),
               (''states'', JArr [JStr ''MERGED'']), (''first'', JNum 20)])]"
  using states_all_is_expanded [of "\<lparr>GITHUB_TOKEN = Some ''t''\<rparr>"
      "[''owner'' \<mapsto> JStr ''acme'', ''repo'' \<mapsto> JStr ''site'', ''states'' \<mapsto> JStr ''ALL'']"
      "''acme''" "''site''" "''ALL''" 20 unauthorized]
    states_all_is_expanded [of "\<lparr>GITHUB_TOKEN = Some ''t''\<rparr>"
      "[''owner'' \<mapsto> JStr ''acme'', ''repo'' \<mapsto> JStr ''site'', ''states'' \<mapsto> JStr ''MERGED'']"
      "''acme''" "''site''" "''MERGED''" 20 unauthorized]
  by (simp add: truthy_def first_schema_default)

section \<open>Adding an item: the project lookup\<close>

lemma exec_ok_response:
  assumes "truthy (GITHUB_TOKEN e)"
    and "rem calls (graphql_request (the (GITHUB_TOKEN e)) q v) = Responded resp"
    and "ok resp" and "json_body resp = Some j"
  shows "executeGitHubGraphQL e rem q v calls = (Inr j, calls @ [graphql_request (the (GITHUB_TOKEN e)) q v])"
  using assms by (simp add: executeGitHubGraphQL_def Let_def)

lemma getProjectId_sent:
  "snd (getProjectId e rem org pn []) = []
   \<or> snd (getProjectId e rem org pn []) = [lookup_request (the (GITHUB_TOKEN e)) org pn]"
  using exec_sent_cases [of e rem getProjectId_query
      "JObj [(''org'', JStr org), (''projectName'', JStr pn)]" "[]"]
  by (auto simp: getProjectId_def lookup_request_def object_of_def split: prod.splits sum.splits)

lemma getProjectId_answered:
  assumes "truthy (GITHUB_TOKEN e)"
    and "rem [] (lookup_request (the (GITHUB_TOKEN e)) org pn) = Responded resp"
    and "ok resp" and "json_body resp = Some data"
  shows "getProjectId e rem org pn [] =
           (first_project_id data, [lookup_request (the (GITHUB_TOKEN e)) org pn])"
  using exec_ok_response [of e rem "[]" getProjectId_query
      "JObj [(''org'', JStr org), (''projectName'', JStr pn)]" resp data] assms
  by (simp add: getProjectId_def lookup_request_def object_of_def)

lemma add_item_lookup:
  assumes "\<not> truthy pid"
  shows "add_item_to_project e rem org pn pid cid title body [] =
     (case getProjectId e rem org pn [] of
        (Inl err, sent) \<Rightarrow> (Inl err, sent)
      | (Inr v, sent) \<Rightarrow>
          (case add_item_document v cid title body of
             Inl err \<Rightarrow> (Inl err, sent)
           | Inr (mutation, variables) \<Rightarrow>
               respond (executeGitHubGraphQL e rem mutation variables sent)))"
  using assms by (simp add: add_item_to_project_def)

lemma add_item_known:
  assumes "truthy pid"
  shows "add_item_to_project e rem org pn pid cid title body [] =
     (case add_item_document (Some (JStr (the pid))) cid title body of
        Inl err \<Rightarrow> (Inl err, [])
      | Inr (mutation, variables) \<Rightarrow> respond (executeGitHubGraphQL e rem mutation variables []))"
  using assms by (simp add: add_item_to_project_def)

lemma first_project_id_empty:
  "project_nodes data = Inr (Some (JArr [])) \<Longrightarrow> first_project_id data = Inl (TypeError ''id'')"
  by (simp add: first_project_id_def then_first_def then_prop_def)

lemma no_not_found: "kind_of err \<noteq> NotFound"
  by (cases err) simp_all

text \<open>
  C1, as the code has it. \<^verbatim>\<open>add_item_to_project\<close> without a \<^verbatim>\<open>projectId\<close> (or with an empty
  one), the credential set: when the lookup is answered with a success whose list of
  projects is empty, the invocation fails with the runtime's \<open>TypeError\<close> on reading \<^verbatim>\<open>id\<close> of
  the missing first project. The lookup is the only request issued, so no mutation is sent.
  No failure of the program is of the kind \<open>NotFound\<close>.
\<close>

theorem lookup_without_projects_fails:
  assumes "add_item_to_project_schema p = Inr (org, pn, pid, cid, title, body)"
    and "\<not> truthy pid"
    and "truthy (GITHUB_TOKEN e)"
    and "rem [] (lookup_request (the (GITHUB_TOKEN e)) org pn) = Responded resp"
    and "ok resp"
    and "json_body resp = Some data"
    and "project_nodes data = Inr (Some (JArr []))"
  shows "invoke e rem ''add_item_to_project'' p =
           (Inl (TypeError ''id''), [lookup_request (the (GITHUB_TOKEN e)) org pn])
         \<and> kind_of (TypeError ''id'') = RuntimeFault
         \<and> (\<forall>err. kind_of err \<noteq> NotFound)"
  using assms(1) no_not_found add_item_lookup [OF assms(2), of e rem org pn cid title body]
    getProjectId_answered [of e rem org pn resp data, OF assms(3-6)] first_project_id_empty [OF assms(7)]
  by (simp add: invoke_tool)

lemma project_nodes_lookup_answer: "project_nodes (lookup_answer nodes) = Inr (Some (JArr nodes))"
  by (simp add: project_nodes_def lookup_answer_def then_prop_def)

lemma add_item_schema_example:
  "add_item_to_project_schema
     [''organization'' \<mapsto> JStr ''acme'', ''projectName'' \<mapsto> JStr ''Roadmap'', ''title'' \<mapsto> JStr ''Plan'']
   = Inr (''acme'', ''Roadmap'', None, None, Some ''Plan'', None)"
  by (simp add: add_item_to_project_schema_def z_string_def z_optional_def)

theorem lookup_without_projects_fails_witness:
  "invoke \<lparr>GITHUB_TOKEN = Some ''t''\<rparr> no_projects ''add_item_to_project''
     [''organization'' \<mapsto> JStr ''acme'', ''projectName'' \<mapsto> JStr ''Roadmap'', ''title'' \<mapsto> JStr ''Plan'']
   = (Inl (TypeError ''id''), [lookup_request ''t'' ''acme'' ''Roadmap''])"
  using lookup_without_projects_fails [of
      "[''organization'' \<mapsto> JStr ''acme'', ''projectName'' \<mapsto> JStr ''Roadmap'', ''title'' \<mapsto> JStr ''Plan'']"
      "''acme''" "''Roadmap''" None None "Some ''Plan''" None "\<lparr>GITHUB_TOKEN = Some ''t''\<rparr>" no_projects
      "\<lparr>status = 200, text_body = ''{\"data\":{\"organization\":{\"projectsV2\":{\"nodes\":[]}}}}'',
        json_body = Some (lookup_answer [])\<rparr>" "lookup_answer []"]
  by (simp add: add_item_schema_example truthy_def no_projects_def answers_def ok_def
        project_nodes_lookup_answer)

text \<open>
  C1 as stated fails: with an empty list of projects the failure is the \<open>TypeError\<close>, which
  is not of the kind \<open>NotFound\<close>.
\<close>

theorem lookup_without_projects_counterexample:
  "fst (invoke \<lparr>GITHUB_TOKEN = Some ''t''\<rparr> no_projects ''add_item_to_project''
     [''organization'' \<mapsto> JStr ''acme'', ''projectName'' \<mapsto> JStr ''Roadmap'', ''title'' \<mapsto> JStr ''Plan''])
   = Inl (TypeError ''id'')
   \<and> kind_of (TypeError ''id'') \<noteq> NotFound"
  by (simp add: invoke_tool add_item_schema_example add_item_to_project_def truthy_def
        getProjectId_def executeGitHubGraphQL_def no_projects_def answers_def ok_def
        first_project_id_def project_nodes_lookup_answer then_first_def then_prop_def)

section \<open>Adding an item: neither content nor title\<close>

lemma add_item_document_neither:
  "\<not> truthy cid \<Longrightarrow> \<not> truthy title \<Longrightarrow> add_item_document v cid title body = Inl ContentIdOrTitle"
  by (simp add: add_item_document_def)

text \<open>
  C2, as the code has it. \<^verbatim>\<open>add_item_to_project\<close> with valid arguments and neither a \<^verbatim>\<open>contentId\<close>
  nor a \<^verbatim>\<open>title\<close> (or empty ones): with a non-empty \<^verbatim>\<open>projectId\<close> the invocation fails with the
  error \<^verbatim>\<open>Either contentId or title must be provided\<close> and issues no request. Without a
  \<^verbatim>\<open>projectId\<close> the lookup runs first: a failure of the lookup is the failure of the
  invocation, a lookup that returns is followed by that error, and the lookup is the only
  request that can have been issued.
\<close>

theorem neither_content_nor_title_fails:
  assumes "add_item_to_project_schema p = Inr (org, pn, pid, cid, title, body)"
    and "\<not> truthy cid"
    and "\<not> truthy title"
  shows "(truthy pid \<longrightarrow> invoke e rem ''add_item_to_project'' p = (Inl ContentIdOrTitle, []))
       \<and> (\<not> truthy pid \<longrightarrow>
            invoke e rem ''add_item_to_project'' p =
              (case getProjectId e rem org pn [] of
                 (Inl err, sent) \<Rightarrow> (Inl err, sent)
               | (Inr v, sent) \<Rightarrow> (Inl ContentIdOrTitle, sent))
            \<and> (snd (invoke e rem ''add_item_to_project'' p) = []
                 \<or> snd (invoke e rem ''add_item_to_project'' p) =
                      [lookup_request (the (GITHUB_TOKEN e)) org pn]))
       \<and> kind_of ContentIdOrTitle = InvalidParameter
       \<and> message ContentIdOrTitle = Some ''Either contentId or title must be provided''"
proof -
  have known: "truthy pid \<Longrightarrow> invoke e rem ''add_item_to_project'' p = (Inl ContentIdOrTitle, [])"
    using assms by (simp add: invoke_tool add_item_known add_item_document_neither)
  have lookup: "invoke e rem ''add_item_to_project'' p =
              (case getProjectId e rem org pn [] of
                 (Inl err, sent) \<Rightarrow> (Inl err, sent)
               | (Inr v, sent) \<Rightarrow> (Inl ContentIdOrTitle, sent))" if "\<not> truthy pid"
    using assms that
    by (simp add: invoke_tool add_item_lookup add_item_document_neither split: prod.splits sum.splits)
  have "snd (invoke e rem ''add_item_to_project'' p) = snd (getProjectId e rem org pn [])"
    if "\<not> truthy pid"
    using lookup [OF that] by (simp split: prod.splits sum.splits)
  with getProjectId_sent [of e rem org pn]
  have sent: "snd (invoke e rem ''add_item_to_project'' p) = []
                 \<or> snd (invoke e rem ''add_item_to_project'' p) =
                      [lookup_request (the (GITHUB_TOKEN e)) org pn]" if "\<not> truthy pid"
    using that by simp
  from known lookup sent show ?thesis by simp
qed

lemma first_project_id_archive:
  "first_project_id (lookup_answer (archive_project # rest)) = Inr (Some (JStr ''PVT_2''))"
  by (simp add: first_project_id_def project_nodes_lookup_answer then_first_def then_prop_def
        archive_project_def)

lemma other_project_lookup:
  "getProjectId \<lparr>GITHUB_TOKEN = Some ''t''\<rparr> other_project org pn [] =
     (Inr (Some (JStr ''PVT_2'')), [lookup_request ''t'' org pn])"
  using getProjectId_answered [of "\<lparr>GITHUB_TOKEN = Some ''t''\<rparr>" other_project org pn
      "\<lparr>status = 200, text_body =
          ''{\"data\":{\"organization\":{\"projectsV2\":{\"nodes\":[{\"id\":\"PVT_2\",\"title\":\"Roadmap archive\"}]}}}}'',
        json_body = Some (lookup_answer [archive_project])\<rparr>" "lookup_answer [archive_project]"]
  by (simp add: truthy_def other_project_def answers_def ok_def first_project_id_archive)

lemma add_item_schema_bare:
  "add_item_to_project_schema
     [''organization'' \<mapsto> JStr ''acme'', ''projectName'' \<mapsto> JStr ''Roadmap'']
   = Inr (''acme'', ''Roadmap'', None, None, None, None)"
  by (simp add: add_item_to_project_schema_def z_string_def z_optional_def)

lemma add_item_schema_known:
  "add_item_to_project_schema
     [''organization'' \<mapsto> JStr ''acme'', ''projectName'' \<mapsto> JStr ''Roadmap'',
      ''projectId'' \<mapsto> JStr ''PVT_1'']
   = Inr (''acme'', ''Roadmap'', Some ''PVT_1'', None, None, None)"
  by (simp add: add_item_to_project_schema_def z_string_def z_optional_def)

theorem neither_content_nor_title_fails_witness:
  "invoke \<lparr>GITHUB_TOKEN = Some ''t''\<rparr> other_project ''add_item_to_project''
     [''organization'' \<mapsto> JStr ''acme'', ''projectName'' \<mapsto> JStr ''Roadmap'',
      ''projectId'' \<mapsto> JStr ''PVT_1''] = (Inl ContentIdOrTitle, [])
   \<and> invoke \<lparr>GITHUB_TOKEN = None\<rparr> other_project ''add_item_to_project''
     [''organization'' \<mapsto> JStr ''acme'', ''projectName'' \<mapsto> JStr ''Roadmap''] = (Inl TokenNotSet, [])"
  using neither_content_nor_title_fails [of
      "[''organization'' \<mapsto> JStr ''acme'', ''projectName'' \<mapsto> JStr ''Roadmap'',
        ''projectId'' \<mapsto> JStr ''PVT_1'']"
      "''acme''" "''Roadmap''" "Some ''PVT_1''" None None None "\<lparr>GITHUB_TOKEN = Some ''t''\<rparr>" other_project]
    neither_content_nor_title_fails [of
      "[''organization'' \<mapsto> JStr ''acme'', ''projectName'' \<mapsto> JStr ''Roadmap'']"
      "''acme''" "''Roadmap''" None None None None "\<lparr>GITHUB_TOKEN = None\<rparr>" other_project]
  by (simp add: add_item_schema_known add_item_schema_bare truthy_def getProjectId_def exec_no_token)

text \<open>
  C2 as stated fails: without a \<^verbatim>\<open>projectId\<close> the error arises after the lookup has been sent.
\<close>

theorem neither_content_nor_title_counterexample:
  "invoke \<lparr>GITHUB_TOKEN = Some ''t''\<rparr> other_project ''add_item_to_project''
     [''organization'' \<mapsto> JStr ''acme'', ''projectName'' \<mapsto> JStr ''Roadmap'']
   = (Inl ContentIdOrTitle, [lookup_request ''t'' ''acme'' ''Roadmap''])
   \<and> [lookup_request ''t'' ''acme'' ''Roadmap''] \<noteq> []"
  by (simp add: invoke_tool add_item_schema_bare add_item_to_project_def truthy_def
        other_project_lookup add_item_document_def)

section \<open>Adding an item: content before draft\<close>

lemma mutation_documents_differ:
  "add_item_to_project_mutation_content \<noteq> add_item_to_project_mutation_draft"
  "getProjectId_query \<noteq> add_item_to_project_mutation_draft"
  "getProjectId_query \<noteq> add_item_to_project_mutation_content"
  by (simp_all add: add_item_to_project_mutation_content_def add_item_to_project_mutation_draft_def
        getProjectId_query_def template_def)

lemma exec_sent_from:
  "r \<in> set (snd (executeGitHubGraphQL e rem q v calls)) \<Longrightarrow>
     r \<in> set calls \<or> r = graphql_request (the (GITHUB_TOKEN e)) q v"
  using exec_sent_cases [of e rem q v calls] by auto

lemma getProjectId_sent_member:
  "getProjectId e rem org pn [] = (out, sent) \<Longrightarrow> r \<in> set sent \<Longrightarrow>
     r = lookup_request (the (GITHUB_TOKEN e)) org pn"
  using getProjectId_sent [of e rem org pn] by auto

lemma add_item_sent_member:
  assumes "r \<in> set (snd (add_item_to_project e rem org pn pid cid title body []))"
  shows "r = lookup_request (the (GITHUB_TOKEN e)) org pn
         \<or> (\<exists>v mutation variables.
               add_item_document v cid title body = Inr (mutation, variables)
               \<and> r = graphql_request (the (GITHUB_TOKEN e)) mutation variables)"
proof (cases "truthy pid")
  case True
  with assms
  have "\<exists>mutation variables.
          add_item_document (Some (JStr (the pid))) cid title body = Inr (mutation, variables)
          \<and> r = graphql_request (the (GITHUB_TOKEN e)) mutation variables"
    by (auto simp: add_item_known respond_sent split: sum.splits dest!: exec_sent_member)
  then show ?thesis by blast
next
  case False
  obtain out sent where g: "getProjectId e rem org pn [] = (out, sent)"
    by (cases "getProjectId e rem org pn []") auto
  show ?thesis
  proof (cases out)
    case (Inl err)
    with assms False g show ?thesis
      by (auto simp: add_item_lookup dest: getProjectId_sent_member)
  next
    case (Inr v)
    show ?thesis
    proof (cases "add_item_document v cid title body")
      case (Inl err)
      with assms False g \<open>out = Inr v\<close> show ?thesis
        by (auto simp: add_item_lookup dest: getProjectId_sent_member)
    next
      case (Inr mv)
      obtain mutation variables where mv: "mv = (mutation, variables)" by (cases mv) auto
      from assms False g \<open>out = Inr v\<close> Inr mv
      have "r \<in> set (snd (executeGitHubGraphQL e rem mutation variables sent))"
        by (simp add: add_item_lookup respond_sent)
      then have "r \<in> set sent \<or> r = graphql_request (the (GITHUB_TOKEN e)) mutation variables"
        by (rule exec_sent_from)
      with g Inr mv show ?thesis
        by (blast dest: getProjectId_sent_member)
    qed
  qed
qed

lemma add_item_document_content:
  "truthy cid \<Longrightarrow>
     add_item_document v cid title body =
       Inr (add_item_to_project_mutation_content,
            JObj [(''input'', object_of [(''projectId'', v), (''contentId'', Some (JStr (the cid)))])])"
  by (simp add: add_item_document_def object_of_def)

text \<open>
  C3, as the code has it. \<^verbatim>\<open>add_item_to_project\<close> with valid arguments and a non-empty
  \<^verbatim>\<open>contentId\<close>, whatever \<^verbatim>\<open>title\<close> and \<^verbatim>\<open>body\<close> are: the document built is the mutation
  \<^verbatim>\<open>addProjectV2ItemById\<close> and its variables are \<^verbatim>\<open>input: {projectId, contentId}\<close>, without
  \<^verbatim>\<open>title\<close> and \<^verbatim>\<open>body\<close>. Every request of the invocation is the lookup or this mutation, none
  is the draft mutation; with the credential set and a non-empty \<^verbatim>\<open>projectId\<close> this mutation
  is the one request transmitted.
\<close>

theorem content_id_takes_precedence:
  assumes "add_item_to_project_schema p = Inr (org, pn, pid, Some c, title, body)"
    and "c \<noteq> []"
  shows "(\<forall>v. add_item_document v (Some c) title body =
              Inr (add_item_to_project_mutation_content,
                   JObj [(''input'', object_of [(''projectId'', v), (''contentId'', Some (JStr c))])]))
       \<and> (\<forall>r \<in> set (snd (invoke e rem ''add_item_to_project'' p)).
             (r = lookup_request (the (GITHUB_TOKEN e)) org pn
              \<or> (\<exists>v. r = graphql_request (the (GITHUB_TOKEN e)) add_item_to_project_mutation_content
                          (JObj [(''input'',
                                  object_of [(''projectId'', v), (''contentId'', Some (JStr c))])])))
             \<and> query_of r \<noteq> Some (JStr add_item_to_project_mutation_draft))
       \<and> (truthy (GITHUB_TOKEN e) \<and> truthy pid \<longrightarrow>
            snd (invoke e rem ''add_item_to_project'' p) =
              [graphql_request (the (GITHUB_TOKEN e)) add_item_to_project_mutation_content
                 (JObj [(''input'', JObj [(''projectId'', JStr (the pid)), (''contentId'', JStr c)])])])"
proof -
  have t: "truthy (Some c)" using assms(2) by (simp add: truthy_def)
  have doc: "add_item_document v (Some c) title body =
              Inr (add_item_to_project_mutation_content,
                   JObj [(''input'', object_of [(''projectId'', v), (''contentId'', Some (JStr c))])])"
    for v
    using add_item_document_content [OF t, of v title body] by simp
  have shape: "r = lookup_request (the (GITHUB_TOKEN e)) org pn
              \<or> (\<exists>v. r = graphql_request (the (GITHUB_TOKEN e)) add_item_to_project_mutation_content
                          (JObj [(''input'',
                                  object_of [(''projectId'', v), (''contentId'', Some (JStr c))])]))"
    if "r \<in> set (snd (invoke e rem ''add_item_to_project'' p))" for r
    using that assms(1) add_item_sent_member [of r e rem org pn pid "Some c" title body]
    by (auto simp: invoke_tool doc)
  have nodraft: "query_of r \<noteq> Some (JStr add_item_to_project_mutation_draft)"
    if "r \<in> set (snd (invoke e rem ''add_item_to_project'' p))" for r
    using shape [OF that]
    by (auto simp: lookup_request_def query_of_request mutation_documents_differ)
  have known: "snd (invoke e rem ''add_item_to_project'' p) =
              [graphql_request (the (GITHUB_TOKEN e)) add_item_to_project_mutation_content
                 (JObj [(''input'', JObj [(''projectId'', JStr (the pid)), (''contentId'', JStr c)])])]"
    if "truthy (GITHUB_TOKEN e)" "truthy pid"
    using that assms(1)
    by (simp add: invoke_tool add_item_known doc respond_sent exec_sent object_of_def)
  from doc shape nodraft known show ?thesis by blast
qed

lemma add_item_schema_both:
  "add_item_to_project_schema
     [''organization'' \<mapsto> JStr ''acme'', ''projectName'' \<mapsto> JStr ''Roadmap'',
      ''projectId'' \<mapsto> JStr ''PVT_1'', ''contentId'' \<mapsto> JStr c, ''title'' \<mapsto> JStr ''Plan'',
      ''body'' \<mapsto> JStr ''Text'']
   = Inr (''acme'', ''Roadmap'', Some ''PVT_1'', Some c, Some ''Plan'', Some ''Text'')"
  by (simp add: add_item_to_project_schema_def z_string_def z_optional_def)

theorem content_id_takes_precedence_witness:
  "snd (invoke \<lparr>GITHUB_TOKEN = Some ''t''\<rparr> unauthorized ''add_item_to_project''
     [''organization'' \<mapsto> JStr ''acme'', ''projectName'' \<mapsto> JStr ''Roadmap'',
      ''projectId'' \<mapsto> JStr ''PVT_1'', ''contentId'' \<mapsto> JStr ''I_1'', ''title'' \<mapsto> JStr ''Plan'',
      ''body'' \<mapsto> JStr ''Text''])
   = [graphql_request ''t'' add_item_to_project_mutation_content
        (JObj [(''input'', JObj [(''projectId'', JStr ''PVT_1''), (''contentId'', JStr ''I_1'')])])]"
  using content_id_takes_precedence [of
      "[''organization'' \<mapsto> JStr ''acme'', ''projectName'' \<mapsto> JStr ''Roadmap'',
        ''projectId'' \<mapsto> JStr ''PVT_1'', ''contentId'' \<mapsto> JStr ''I_1'', ''title'' \<mapsto> JStr ''Plan'',
        ''body'' \<mapsto> JStr ''Text'']"
      "''acme''" "''Roadmap''" "Some ''PVT_1''" "''I_1''" "Some ''Plan''" "Some ''Text''"
      "\<lparr>GITHUB_TOKEN = Some ''t''\<rparr>" unauthorized]
  by (simp add: add_item_schema_both truthy_def)

text \<open>
  C3 as stated fails: a \<^verbatim>\<open>contentId\<close> that is supplied as the empty string is falsy, and with
  a \<^verbatim>\<open>title\<close> the draft mutation is built and sent.
\<close>

theorem content_id_takes_precedence_counterexample:
  "snd (invoke \<lparr>GITHUB_TOKEN = Some ''t''\<rparr> unauthorized ''add_item_to_project''
     [''organization'' \<mapsto> JStr ''acme'', ''projectName'' \<mapsto> JStr ''Roadmap'',
      ''projectId'' \<mapsto> JStr ''PVT_1'', ''contentId'' \<mapsto> JStr [], ''title'' \<mapsto> JStr ''Plan'',
      ''body'' \<mapsto> JStr ''Text''])
   = [graphql_request ''t'' add_item_to_project_mutation_draft
        (JObj [(''input'', JObj [(''projectId'', JStr ''PVT_1''), (''title'', JStr ''Plan''),
                                 (''body'', JStr ''Text'')])])]
   \<and> add_item_to_project_mutation_draft \<noteq> add_item_to_project_mutation_content"
  using mutation_documents_differ(1)
  by (simp add: invoke_tool add_item_schema_both add_item_known add_item_document_def truthy_def
        respond_sent exec_sent object_of_def)

section \<open>Adding an item: which project\<close>

lemma first_project_id_first:
  assumes "project_nodes data = Inr (Some (JArr (node # rest)))"
  shows "first_project_id data = get_prop (Some node) ''id''"
  using assms by (simp add: first_project_id_def then_first_def then_prop_def)

lemma add_item_schema_content:
  "add_item_to_project_schema
     [''organization'' \<mapsto> JStr ''acme'', ''projectName'' \<mapsto> JStr ''Roadmap'',
      ''contentId'' \<mapsto> JStr ''I_1'']
   = Inr (''acme'', ''Roadmap'', None, Some ''I_1'', None, None)"
  by (simp add: add_item_to_project_schema_def z_string_def z_optional_def)

lemma other_project_adds:
  "snd (invoke \<lparr>GITHUB_TOKEN = Some ''t''\<rparr> other_project ''add_item_to_project''
          [''organization'' \<mapsto> JStr ''acme'', ''projectName'' \<mapsto> JStr ''Roadmap'',
           ''contentId'' \<mapsto> JStr ''I_1''])
   = [lookup_request ''t'' ''acme'' ''Roadmap'',
      graphql_request ''t'' add_item_to_project_mutation_content
        (JObj [(''input'', JObj [(''projectId'', JStr ''PVT_2''), (''contentId'', JStr ''I_1'')])])]"
  by (simp add: invoke_tool add_item_schema_content add_item_lookup truthy_def other_project_lookup
        add_item_document_def respond_sent exec_sent object_of_def)

text \<open>
  C10. \<^verbatim>\<open>add_item_to_project\<close> without a \<^verbatim>\<open>projectId\<close>, the credential set: when the lookup is
  answered with a success whose list of projects is not empty, the identifier given to the
  mutation is the \<^verbatim>\<open>id\<close> of the first project of the list. Nothing else of the list is read,
  the first project's \<^verbatim>\<open>title\<close> included, so it is not compared with \<^verbatim>\<open>projectName\<close>. The last
  three conjuncts are an instance: asked for the project \<^verbatim>\<open>Roadmap\<close>, a remote that lists the
  project \<^verbatim>\<open>PVT_2\<close> titled \<^verbatim>\<open>Roadmap archive\<close> first gets the item added to \<^verbatim>\<open>PVT_2\<close>.
\<close>

theorem first_project_is_used:
  assumes "add_item_to_project_schema p = Inr (org, pn, pid, cid, title, body)"
    and "\<not> truthy pid"
    and "truthy (GITHUB_TOKEN e)"
    and "rem [] (lookup_request (the (GITHUB_TOKEN e)) org pn) = Responded resp"
    and "ok resp"
    and "json_body resp = Some data"
    and "project_nodes data = Inr (Some (JArr (node # rest)))"
    and "get_prop (Some node) ''id'' = Inr v"
  shows "invoke e rem ''add_item_to_project'' p =
           (case add_item_document v cid title body of
              Inl err \<Rightarrow> (Inl err, [lookup_request (the (GITHUB_TOKEN e)) org pn])
            | Inr (mutation, variables) \<Rightarrow>
                respond (executeGitHubGraphQL e rem mutation variables
                           [lookup_request (the (GITHUB_TOKEN e)) org pn]))
       \<and> (truthy cid \<longrightarrow>
            snd (invoke e rem ''add_item_to_project'' p) =
              [lookup_request (the (GITHUB_TOKEN e)) org pn,
               graphql_request (the (GITHUB_TOKEN e)) add_item_to_project_mutation_content
                 (JObj [(''input'',
                         object_of [(''projectId'', v), (''contentId'', Some (JStr (the cid)))])])])
       \<and> snd (invoke \<lparr>GITHUB_TOKEN = Some ''t''\<rparr> other_project ''add_item_to_project''
                 [''organization'' \<mapsto> JStr ''acme'', ''projectName'' \<mapsto> JStr ''Roadmap'',
                  ''contentId'' \<mapsto> JStr ''I_1''])
           = [lookup_request ''t'' ''acme'' ''Roadmap'',
              graphql_request ''t'' add_item_to_project_mutation_content
                (JObj [(''input'', JObj [(''projectId'', JStr ''PVT_2''), (''contentId'', JStr ''I_1'')])])]
       \<and> other_project [] (lookup_request ''t'' ''acme'' ''Roadmap'') =
             Responded \<lparr>status = 200,
                        text_body = ''{\"data\":{\"organization\":{\"projectsV2\":{\"nodes\":[{\"id\":\"PVT_2\",\"title\":\"Roadmap archive\"}]}}}}'',
                        json_body = Some (lookup_answer
                          [JObj [(''id'', JStr ''PVT_2''), (''title'', JStr ''Roadmap archive'')]])\<rparr>
       \<and> ''Roadmap archive'' \<noteq> ''Roadmap''"
proof -
  have look: "getProjectId e rem org pn [] = (Inr v, [lookup_request (the (GITHUB_TOKEN e)) org pn])"
    using getProjectId_answered [of e rem org pn resp data, OF assms(3-6)]
      first_project_id_first [OF assms(7)] assms(8)
    by simp
  have main: "invoke e rem ''add_item_to_project'' p =
           (case add_item_document v cid title body of
              Inl err \<Rightarrow> (Inl err, [lookup_request (the (GITHUB_TOKEN e)) org pn])
            | Inr (mutation, variables) \<Rightarrow>
                respond (executeGitHubGraphQL e rem mutation variables
                           [lookup_request (the (GITHUB_TOKEN e)) org pn]))"
    using assms(1) add_item_lookup [OF assms(2), of e rem org pn cid title body] look
    by (simp add: invoke_tool)
  have content: "snd (invoke e rem ''add_item_to_project'' p) =
              [lookup_request (the (GITHUB_TOKEN e)) org pn,
               graphql_request (the (GITHUB_TOKEN e)) add_item_to_project_mutation_content
                 (JObj [(''input'',
                         object_of [(''projectId'', v), (''contentId'', Some (JStr (the cid)))])])]"
    if "truthy cid"
    using main add_item_document_content [OF that, of v title body] assms(3)
    by (simp add: respond_sent exec_sent)
  have example: "other_project [] (lookup_request ''t'' ''acme'' ''Roadmap'') =
             Responded \<lparr>status = 200,
                        text_body = ''{\"data\":{\"organization\":{\"projectsV2\":{\"nodes\":[{\"id\":\"PVT_2\",\"title\":\"Roadmap archive\"}]}}}}'',
                        json_body = Some (lookup_answer
                          [JObj [(''id'', JStr ''PVT_2''), (''title'', JStr ''Roadmap archive'')]])\<rparr>"
    by (simp add: other_project_def answers_def archive_project_def)
  from main content other_project_adds example show ?thesis by simp
qed

theorem first_project_is_used_witness:
  "invoke \<lparr>GITHUB_TOKEN = Some ''t''\<rparr> other_project ''add_item_to_project''
          [''organization'' \<mapsto> JStr ''acme'', ''projectName'' \<mapsto> JStr ''Roadmap'',
           ''contentId'' \<mapsto> JStr ''I_1'']
   = respond (executeGitHubGraphQL \<lparr>GITHUB_TOKEN = Some ''t''\<rparr> other_project
        add_item_to_project_mutation_content
        (JObj [(''input'', JObj [(''projectId'', JStr ''PVT_2''), (''contentId'', JStr ''I_1'')])])
        [lookup_request ''t'' ''acme'' ''Roadmap''])"
  using first_project_is_used [of
      "[''organization'' \<mapsto> JStr ''acme'', ''projectName'' \<mapsto> JStr ''Roadmap'',
        ''contentId'' \<mapsto> JStr ''I_1'']"
      "''acme''" "''Roadmap''" None "Some ''I_1''" None None "\<lparr>GITHUB_TOKEN = Some ''t''\<rparr>" other_project
      "\<lparr>status = 200,
        text_body = ''{\"data\":{\"organization\":{\"projectsV2\":{\"nodes\":[{\"id\":\"PVT_2\",\"title\":\"Roadmap archive\"}]}}}}'',
        json_body = Some (lookup_answer [archive_project])\<rparr>"
      "lookup_answer [archive_project]" archive_project "[]" "Some (JStr ''PVT_2'')"]
  by (simp add: add_item_schema_content truthy_def other_project_def answers_def ok_def
        project_nodes_lookup_answer archive_project_def add_item_document_def object_of_def)

section \<open>The documents are fixed texts\<close>

lemma planned_tool:
  "planned ''get_github_projects'' p = [get_github_projects_query]"
  "planned ''get_project_details'' p = [get_project_details_query]"
  "planned ''get_repository_issues'' p = [get_repository_issues_query]"
  "planned ''get_repository_pull_requests'' p = [get_repository_pull_requests_query]"
  "planned ''add_item_to_project'' p =
        (if nonempty_string (p ''projectId'') then [] else [getProjectId_query])
        @ (if nonempty_string (p ''contentId'') then [add_item_to_project_mutation_content]
           else if nonempty_string (p ''title'') then [add_item_to_project_mutation_draft]
           else [])"
  "planned ''update_project_item_field'' p = [update_project_item_field_mutation]"
  "planned ''get_repositories'' p =
        [if p ''isOrg'' = Some (JBool True) then get_repositories_query_org
         else get_repositories_query_user]"
  "planned ''get_project_views'' p = [get_project_views_query]"
  by (simp_all add: planned_def)

lemma single_call_documents:
  "\<exists>n. map query_of (snd (respond (executeGitHubGraphQL e rem q v []))) =
         map (\<lambda>d. Some (JStr d)) (take n [q])"
proof -
  from exec_sent_cases [of e rem q v "[]"]
  have "map query_of (snd (respond (executeGitHubGraphQL e rem q v []))) = map (\<lambda>d. Some (JStr d)) (take 0 [q])
        \<or> map query_of (snd (respond (executeGitHubGraphQL e rem q v []))) = map (\<lambda>d. Some (JStr d)) (take 1 [q])"
    by (auto simp: respond_sent query_of_request)
  then show ?thesis by blast
qed

lemma no_call_documents: "\<exists>n. map query_of [] = map (\<lambda>d. Some (JStr d)) (take n ds)"
  by (rule exI [of _ 0]) simp

lemma tools_documents:
  "\<exists>n. map query_of (snd (get_github_projects e rem organization [])) =
         map (\<lambda>d. Some (JStr d)) (take n [get_github_projects_query])"
  "\<exists>n. map query_of (snd (get_project_details e rem projectId [])) =
         map (\<lambda>d. Some (JStr d)) (take n [get_project_details_query])"
  "\<exists>n. map query_of (snd (get_repository_issues e rem owner repo states first [])) =
         map (\<lambda>d. Some (JStr d)) (take n [get_repository_issues_query])"
  "\<exists>n. map query_of (snd (get_repository_pull_requests e rem owner repo states first [])) =
         map (\<lambda>d. Some (JStr d)) (take n [get_repository_pull_requests_query])"
  "\<exists>n. map query_of (snd (update_project_item_field e rem projectId itemId fieldId val [])) =
         map (\<lambda>d. Some (JStr d)) (take n [update_project_item_field_mutation])"
  "\<exists>n. map query_of (snd (get_repositories e rem owner isOrg first [])) =
         map (\<lambda>d. Some (JStr d))
           (take n [if isOrg then get_repositories_query_org else get_repositories_query_user])"
  "\<exists>n. map query_of (snd (get_project_views e rem projectId [])) =
         map (\<lambda>d. Some (JStr d)) (take n [get_project_views_query])"
  unfolding get_github_projects_def get_project_details_def get_repository_issues_def
    get_repository_pull_requests_def update_project_item_field_def get_repositories_def
    get_project_views_def Let_def
  by (rule single_call_documents)+

lemma getProjectId_returns:
  assumes "getProjectId e rem org pn [] = (Inr v, sent)"
  shows "sent = [lookup_request (the (GITHUB_TOKEN e)) org pn]"
proof -
  from assms obtain data where
    "executeGitHubGraphQL e rem getProjectId_query
       (object_of [(''org'', Some (JStr org)), (''projectName'', Some (JStr pn))]) [] = (Inr data, sent)"
    by (auto simp: getProjectId_def split: prod.splits sum.splits)
  from exec_success [OF this] show ?thesis
    by (simp add: lookup_request_def object_of_def)
qed

lemma add_item_document_cases:
  "add_item_document v cid title body = Inl err \<Longrightarrow> \<not> truthy cid \<and> \<not> truthy title"
  "add_item_document v cid title body = Inr (mutation, variables) \<Longrightarrow>
     (truthy cid \<or> truthy title)
     \<and> mutation = (if truthy cid then add_item_to_project_mutation_content
                    else add_item_to_project_mutation_draft)"
  by (auto simp: add_item_document_def split: if_splits)

lemma add_item_documents:
  "\<exists>n. map query_of (snd (add_item_to_project e rem org pn pid cid title body [])) =
         map (\<lambda>d. Some (JStr d))
           (take n ((if truthy pid then [] else [getProjectId_query])
                    @ (if truthy cid then [add_item_to_project_mutation_content]
                       else if truthy title then [add_item_to_project_mutation_draft]
                       else [])))"
  (is "\<exists>n. ?sent = map ?f (take n ?plan)")
proof (cases "truthy pid")
  case True
  show ?thesis
  proof (cases "add_item_document (Some (JStr (the pid))) cid title body")
    case (Inl err)
    with True have "?sent = map ?f (take 0 ?plan)" by (simp add: add_item_known)
    then show ?thesis by blast
  next
    case (Inr mv)
    obtain mutation variables where mv: "mv = (mutation, variables)" by (cases mv) auto
    from single_call_documents [of e rem mutation variables]
    obtain n where "map query_of (snd (respond (executeGitHubGraphQL e rem mutation variables [])))
        = map ?f (take n [mutation])" by blast
    with True Inr mv add_item_document_cases(2) [of "Some (JStr (the pid))" cid title body mutation variables]
    have "?sent = map ?f (take n ?plan)"
      by (auto simp: add_item_known)
    then show ?thesis by blast
  qed
next
  case False
  let ?look = "lookup_request (the (GITHUB_TOKEN e)) org pn"
  have q: "query_of ?look = Some (JStr getProjectId_query)"
    by (simp add: lookup_request_def query_of_request)
  obtain out sent where g: "getProjectId e rem org pn [] = (out, sent)"
    by (cases "getProjectId e rem org pn []") auto
  show ?thesis
  proof (cases out)
    case (Inl err)
    with g False getProjectId_sent [of e rem org pn] q
    have "?sent = map ?f (take 0 ?plan) \<or> ?sent = map ?f (take 1 ?plan)"
      by (auto simp: add_item_lookup)
    then show ?thesis by blast
  next
    case (Inr v)
    with g have sent: "sent = [?look]" by (simp add: getProjectId_returns)
    show ?thesis
    proof (cases "add_item_document v cid title body")
      case (Inl err)
      with g False \<open>out = Inr v\<close> sent q have "?sent = map ?f (take 1 ?plan)"
        by (simp add: add_item_lookup)
      then show ?thesis by blast
    next
      case (Inr mv)
      obtain mutation variables where mv: "mv = (mutation, variables)" by (cases mv) auto
      from exec_sent_cases [of e rem mutation variables "[?look]"] q
      have "map query_of (snd (executeGitHubGraphQL e rem mutation variables [?look]))
              = map ?f (take 1 [getProjectId_query, mutation])
            \<or> map query_of (snd (executeGitHubGraphQL e rem mutation variables [?look]))
              = map ?f (take 2 [getProjectId_query, mutation])"
        by (auto simp: query_of_request)
      with g False \<open>out = Inr v\<close> sent Inr mv
        add_item_document_cases(2) [of v cid title body mutation variables]
      have "?sent = map ?f (take 1 ?plan) \<or> ?sent = map ?f (take 2 ?plan)"
        by (auto simp: add_item_lookup respond_sent)
      then show ?thesis by blast
    qed
  qed
qed

lemma truthy_nonempty:
  "truthy (case v of Some (JStr s) \<Rightarrow> Some s | _ \<Rightarrow> None) = nonempty_string v"
  by (simp add: truthy_def nonempty_string_def split: option.splits json.splits)

lemma get_repositories_schema_isOrg:
  "get_repositories_schema p = Inr (owner, isOrg, first) \<Longrightarrow> isOrg = (p ''isOrg'' = Some (JBool True))"
  by (auto simp: get_repositories_schema_def Let_def z_default_def z_boolean_def
           split: sum.splits option.splits json.splits)

lemma invoke_documents:
  "\<exists>n. map query_of (snd (invoke e rem name p)) = map (\<lambda>d. Some (JStr d)) (take n (planned name p))"
proof -
  have "name \<in> set tool_names \<or> name \<notin> set tool_names" by simp
  then consider (a) "name = ''get_github_projects''" | (b) "name = ''get_project_details''"
    | (c) "name = ''get_repository_issues''" | (d) "name = ''get_repository_pull_requests''"
    | (f) "name = ''add_item_to_project''" | (g) "name = ''update_project_item_field''"
    | (h) "name = ''get_repositories''" | (i) "name = ''get_project_views''"
    | (other) "name \<notin> set tool_names"
    unfolding tool_names_def set_simps insert_iff empty_iff by metis
  then show ?thesis
  proof cases
    case a
    then show ?thesis
      using tools_documents(1) [of e rem] no_call_documents
      by (cases "organization_schema p") (auto simp: invoke_tool planned_tool)
  next
    case b
    then show ?thesis
      using tools_documents(2) [of e rem] no_call_documents
      by (cases "projectId_schema p") (auto simp: invoke_tool planned_tool)
  next
    case c
    then show ?thesis
      using tools_documents(3) [of e rem] no_call_documents
      by (cases "get_repository_issues_schema p") (auto simp: invoke_tool planned_tool)
  next
    case d
    then show ?thesis
      using tools_documents(4) [of e rem] no_call_documents
      by (cases "get_repository_pull_requests_schema p") (auto simp: invoke_tool planned_tool)
  next
    case f
    show ?thesis
    proof (cases "add_item_to_project_schema p")
      case (Inl err)
      with f no_call_documents show ?thesis by (simp add: invoke_tool)
    next
      case (Inr args)
      obtain org pn pid cid title body where args: "args = (org, pn, pid, cid, title, body)"
        by (cases args) auto
      note s = add_item_to_project_schema_success [OF Inr [unfolded args]]
      have t: "truthy pid = nonempty_string (p ''projectId'')"
        "truthy cid = nonempty_string (p ''contentId'')"
        "truthy title = nonempty_string (p ''title'')"
        by (simp_all only: s(3-5) truthy_nonempty)
      have inv: "invoke e rem name p = add_item_to_project e rem org pn pid cid title body []"
        using f Inr args by (simp add: invoke_tool)
      have pl: "planned name p =
                  (if truthy pid then [] else [getProjectId_query])
                  @ (if truthy cid then [add_item_to_project_mutation_content]
                     else if truthy title then [add_item_to_project_mutation_draft]
                     else [])"
        unfolding t using f by (simp only: planned_tool)
      show ?thesis unfolding inv pl by (rule add_item_documents)
    qed
  next
    case g
    then show ?thesis
      using tools_documents(5) [of e rem] no_call_documents
      by (cases "update_project_item_field_schema p") (auto simp: invoke_tool planned_tool)
  next
    case h
    show ?thesis
    proof (cases "get_repositories_schema p")
      case (Inl err)
      with h no_call_documents show ?thesis by (simp add: invoke_tool)
    next
      case (Inr args)
      obtain owner isOrg first where args: "args = (owner, isOrg, first)" by (cases args) auto
      have inv: "invoke e rem name p = get_repositories e rem owner isOrg first []"
        using h Inr args by (simp add: invoke_tool)
      have pl: "planned name p =
                  [if isOrg then get_repositories_query_org else get_repositories_query_user]"
        using h get_repositories_schema_isOrg [OF Inr [unfolded args]] by (simp add: planned_tool)
      show ?thesis unfolding inv pl by (rule tools_documents(6))
    qed
  next
    case i
    then show ?thesis
      using tools_documents(7) [of e rem] no_call_documents
      by (cases "projectId_schema p") (auto simp: invoke_tool planned_tool)
  next
    case other
    then show ?thesis using no_call_documents by (simp add: invoke_def tool_names_def)
  qed
qed

lemma planned_fixed: "set (planned name p) \<subseteq> set all_documents"
  by (auto simp: planned_def all_documents_def split: if_splits)

lemma planned_agree:
  assumes "name = ''get_repositories'' \<Longrightarrow> p1 ''isOrg'' = p2 ''isOrg''"
    and "name = ''add_item_to_project'' \<Longrightarrow>
           nonempty_string (p1 ''projectId'') = nonempty_string (p2 ''projectId'')
           \<and> nonempty_string (p1 ''contentId'') = nonempty_string (p2 ''contentId'')
           \<and> nonempty_string (p1 ''title'') = nonempty_string (p2 ''title'')"
  shows "planned name p1 = planned name p2"
  using assms by (simp add: planned_def)

lemma nth_document:
  assumes "map query_of sent = map (\<lambda>d. Some (JStr d)) (take n ds)" and "k < length sent"
  shows "query_of (sent ! k) = Some (JStr (ds ! k))"
proof -
  from assms have k: "k < length (take n ds)"
    by (metis length_map)
  from assms(2) have "query_of (sent ! k) = map query_of sent ! k" by simp
  also have "\<dots> = map (\<lambda>d. Some (JStr d)) (take n ds) ! k" using assms(1) by simp
  also have "\<dots> = Some (JStr (ds ! k))" using k by simp
  finally show ?thesis .
qed

text \<open>
  C9, as the code has it. Take two invocations of the same tool, with any credentials and
  remotes. If their arguments agree on \<^verbatim>\<open>isOrg\<close> (for \<^verbatim>\<open>get_repositories\<close>) and on which of
  \<^verbatim>\<open>projectId\<close>, \<^verbatim>\<open>contentId\<close> and \<^verbatim>\<open>title\<close> are non-empty strings (for \<^verbatim>\<open>add_item_to_project\<close>),
  then the document of the k-th request is the same text in both, for every k at which both
  issue a request. Every document transmitted is one of the eleven fixed texts of
  \<open>all_documents\<close>: no argument is a part of a document, the arguments travel in the
  variables.
\<close>

theorem documents_do_not_depend_on_strings:
  assumes "name = ''get_repositories'' \<Longrightarrow> p1 ''isOrg'' = p2 ''isOrg''"
    and "name = ''add_item_to_project'' \<Longrightarrow>
           nonempty_string (p1 ''projectId'') = nonempty_string (p2 ''projectId'')
           \<and> nonempty_string (p1 ''contentId'') = nonempty_string (p2 ''contentId'')
           \<and> nonempty_string (p1 ''title'') = nonempty_string (p2 ''title'')"
  shows "(\<forall>k. k < length (snd (invoke e1 rem1 name p1)) \<and> k < length (snd (invoke e2 rem2 name p2))
             \<longrightarrow> query_of (snd (invoke e1 rem1 name p1) ! k) =
                  query_of (snd (invoke e2 rem2 name p2) ! k))
       \<and> (\<forall>r \<in> set (snd (invoke e1 rem1 name p1)).
             \<exists>d \<in> set all_documents. query_of r = Some (JStr d))"
proof -
  obtain n1 where d1: "map query_of (snd (invoke e1 rem1 name p1)) =
      map (\<lambda>d. Some (JStr d)) (take n1 (planned name p1))"
    using invoke_documents [of e1 rem1 name p1] by blast
  obtain n2 where d2: "map query_of (snd (invoke e2 rem2 name p2)) =
      map (\<lambda>d. Some (JStr d)) (take n2 (planned name p1))"
    using invoke_documents [of e2 rem2 name p2] planned_agree [of name p1 p2, OF assms] by auto
  have same: "query_of (snd (invoke e1 rem1 name p1) ! k) = query_of (snd (invoke e2 rem2 name p2) ! k)"
    if "k < length (snd (invoke e1 rem1 name p1))" "k < length (snd (invoke e2 rem2 name p2))" for k
    using nth_document [OF d1 that(1)] nth_document [OF d2 that(2)] by simp
  have fixed: "\<exists>d \<in> set all_documents. query_of r = Some (JStr d)"
    if "r \<in> set (snd (invoke e1 rem1 name p1))" for r
  proof -
    from that have "query_of r \<in> set (map query_of (snd (invoke e1 rem1 name p1)))" by simp
    then have "query_of r \<in> (\<lambda>d. Some (JStr d)) ` set (take n1 (planned name p1))"
      unfolding d1 by simp
    then obtain d where "d \<in> set (take n1 (planned name p1))" "query_of r = Some (JStr d)" by blast
    with set_take_subset [of n1 "planned name p1"] planned_fixed [of name p1] show ?thesis by blast
  qed
  from same fixed show ?thesis by blast
qed

theorem documents_do_not_depend_on_strings_witness:
  "length (snd (invoke \<lparr>GITHUB_TOKEN = Some ''t''\<rparr> unauthorized ''get_repositories''
             [''owner'' \<mapsto> JStr ''acme''])) = 1
   \<and> length (snd (invoke \<lparr>GITHUB_TOKEN = Some ''t''\<rparr> unauthorized ''get_repositories''
             [''owner'' \<mapsto> JStr ''acme) { viewer { login } } #'', ''first'' \<mapsto> JNum 5])) = 1
   \<and> query_of (snd (invoke \<lparr>GITHUB_TOKEN = Some ''t''\<rparr> unauthorized ''get_repositories''
             [''owner'' \<mapsto> JStr ''acme'']) ! 0) =
       query_of (snd (invoke \<lparr>GITHUB_TOKEN = Some ''t''\<rparr> unauthorized ''get_repositories''
             [''owner'' \<mapsto> JStr ''acme) { viewer { login } } #'', ''first'' \<mapsto> JNum 5]) ! 0)"
proof -
  let ?e = "\<lparr>GITHUB_TOKEN = Some ''t''\<rparr>"
  let ?p1 = "[''owner'' \<mapsto> JStr ''acme'']"
  let ?p2 = "[''owner'' \<mapsto> JStr ''acme) { viewer { login } } #'', ''first'' \<mapsto> JNum 5]"
  have l1: "length (snd (invoke ?e unauthorized ''get_repositories'' ?p1)) = 1"
    by (simp add: invoke_tool get_repositories_schema_def z_string_def z_default_def z_boolean_def
          first_schema_default get_repositories_def respond_sent exec_sent truthy_def)
  have l2: "length (snd (invoke ?e unauthorized ''get_repositories'' ?p2)) = 1"
    by (simp add: invoke_tool get_repositories_schema_def z_string_def z_default_def z_boolean_def
          first_schema_in_range get_repositories_def respond_sent exec_sent truthy_def)
  from documents_do_not_depend_on_strings [of "''get_repositories''" ?p1 ?p2 ?e unauthorized ?e unauthorized]
  have "\<forall>k. k < length (snd (invoke ?e unauthorized ''get_repositories'' ?p1))
            \<and> k < length (snd (invoke ?e unauthorized ''get_repositories'' ?p2))
             \<longrightarrow> query_of (snd (invoke ?e unauthorized ''get_repositories'' ?p1) ! k) =
                  query_of (snd (invoke ?e unauthorized ''get_repositories'' ?p2) ! k)"
    by simp
  with l1 l2 show ?thesis by simp
qed

text \<open>
  C9 as stated fails: \<^verbatim>\<open>add_item_to_project\<close> has no argument that is not a string, and two
  valid sets of arguments, one with a \<^verbatim>\<open>contentId\<close> and one with a \<^verbatim>\<open>title\<close>, send different
  documents.
\<close>

theorem documents_do_not_depend_on_strings_counterexample:
  "add_item_to_project_schema
     [''organization'' \<mapsto> JStr ''acme'', ''projectName'' \<mapsto> JStr ''Roadmap'',
      ''projectId'' \<mapsto> JStr ''PVT_1'', ''contentId'' \<mapsto> JStr ''I_1'']
     = Inr (''acme'', ''Roadmap'', Some ''PVT_1'', Some ''I_1'', None, None)
   \<and> add_item_to_project_schema
     [''organization'' \<mapsto> JStr ''acme'', ''projectName'' \<mapsto> JStr ''Roadmap'',
      ''projectId'' \<mapsto> JStr ''PVT_1'', ''title'' \<mapsto> JStr ''Plan'']
     = Inr (''acme'', ''Roadmap'', Some ''PVT_1'', None, Some ''Plan'', None)
   \<and> map query_of (snd (invoke \<lparr>GITHUB_TOKEN = Some ''t''\<rparr> unauthorized ''add_item_to_project''
        [''organization'' \<mapsto> JStr ''acme'', ''projectName'' \<mapsto> JStr ''Roadmap'',
         ''projectId'' \<mapsto> JStr ''PVT_1'', ''contentId'' \<mapsto> JStr ''I_1'']))
     = [Some (JStr add_item_to_project_mutation_content)]
   \<and> map query_of (snd (invoke \<lparr>GITHUB_TOKEN = Some ''t''\<rparr> unauthorized ''add_item_to_project''
        [''organization'' \<mapsto> JStr ''acme'', ''projectName'' \<mapsto> JStr ''Roadmap'',
         ''projectId'' \<mapsto> JStr ''PVT_1'', ''title'' \<mapsto> JStr ''Plan'']))
     = [Some (JStr add_item_to_project_mutation_draft)]
   \<and> add_item_to_project_mutation_content \<noteq> add_item_to_project_mutation_draft"
proof -
  have a: "add_item_to_project_schema
     [''organization'' \<mapsto> JStr ''acme'', ''projectName'' \<mapsto> JStr ''Roadmap'',
      ''projectId'' \<mapsto> JStr ''PVT_1'', ''contentId'' \<mapsto> JStr ''I_1'']
     = Inr (''acme'', ''Roadmap'', Some ''PVT_1'', Some ''I_1'', None, None)"
    by (simp add: add_item_to_project_schema_def z_string_def z_optional_def)
  have b: "add_item_to_project_schema
     [''organization'' \<mapsto> JStr ''acme'', ''projectName'' \<mapsto> JStr ''Roadmap'',
      ''projectId'' \<mapsto> JStr ''PVT_1'', ''title'' \<mapsto> JStr ''Plan'']
     = Inr (''acme'', ''Roadmap'', Some ''PVT_1'', None, Some ''Plan'', None)"
    by (simp add: add_item_to_project_schema_def z_string_def z_optional_def)
  show ?thesis
    using mutation_documents_differ(1)
    by (simp add: a b invoke_tool add_item_known add_item_document_def truthy_def respond_sent
          exec_sent query_of_request)
qed

section \<open>The absent credential: every tool\<close>

lemma invoke_no_token_fails:
  assumes "\<not> truthy (GITHUB_TOKEN e)"
  shows "\<exists>err. invoke e rem name p = (Inl err, [])"
proof -
  have "name \<in> set tool_names \<or> name \<notin> set tool_names" by simp
  then consider (a) "name = ''get_github_projects''" | (b) "name = ''get_project_details''"
    | (c) "name = ''get_repository_issues''" | (d) "name = ''get_repository_pull_requests''"
    | (f) "name = ''add_item_to_project''" | (g) "name = ''update_project_item_field''"
    | (h) "name = ''get_repositories''" | (i) "name = ''get_project_views''"
    | (other) "name \<notin> set tool_names"
    unfolding tool_names_def set_simps insert_iff empty_iff by metis
  then show ?thesis
  proof cases
    case a
    then show ?thesis
      using tools_no_token(1) [OF assms]
      by (cases "organization_schema p") (auto simp: invoke_def)
  next
    case b
    then show ?thesis
      using projectId_schema_failure [of p] tools_no_token(2) [OF assms]
      by (cases "projectId_schema p") (auto simp: invoke_def)
  next
    case c
    then show ?thesis
      using get_repository_issues_schema_failure [of p] tools_no_token(3) [OF assms]
      by (cases "get_repository_issues_schema p") (auto simp: invoke_def)
  next
    case d
    then show ?thesis
      using get_repository_pull_requests_schema_failure [of p] tools_no_token(4) [OF assms]
      by (cases "get_repository_pull_requests_schema p") (auto simp: invoke_def)
  next
    case f
    with add_item_invoke_no_token [OF assms, of rem p]
    show ?thesis by (auto simp: invoke_def)
  next
    case g
    then show ?thesis
      using update_project_item_field_schema_failure [of p] tools_no_token(5) [OF assms]
      by (cases "update_project_item_field_schema p") (auto simp: invoke_def)
  next
    case h
    then show ?thesis
      using get_repositories_schema_failure [of p] tools_no_token(6) [OF assms]
      by (cases "get_repositories_schema p") (auto simp: invoke_def)
  next
    case i
    then show ?thesis
      using projectId_schema_failure [of p] tools_no_token(7) [OF assms]
      by (cases "projectId_schema p") (auto simp: invoke_def)
  next
    case other
    then show ?thesis by (simp add: invoke_def tool_names_def)
  qed
qed

text \<open>
  C5. With the credential absent or empty, every invocation that a tool accepts fails with
  the error \<^verbatim>\<open>GITHUB_TOKEN environment variable is not set\<close> and issues no request. The
  arguments are those that the schema of the tool admits and, for \<^verbatim>\<open>add_item_to_project\<close>, of
  which \<^verbatim>\<open>contentId\<close> or \<^verbatim>\<open>title\<close> is a non-empty string (or \<^verbatim>\<open>projectId\<close> is absent or empty, so
  that the lookup is the first call). Every call of \<open>executeGitHubGraphQL\<close> fails with that
  error without a request, and no invocation at all, accepted or not, issues a request or
  succeeds.
\<close>

theorem absent_credential_fails_without_request:
  assumes "\<not> truthy (GITHUB_TOKEN e)"
    and acc: "accepts name p"
    and one: "name = ''add_item_to_project'' \<Longrightarrow>
                \<not> nonempty_string (p ''projectId'') \<or> nonempty_string (p ''contentId'')
                \<or> nonempty_string (p ''title'')"
  shows "invoke e rem name p = (Inl TokenNotSet, [])
       \<and> kind_of TokenNotSet = MissingCredential
       \<and> executeGitHubGraphQL e rem query variables calls = (Inl TokenNotSet, calls)
       \<and> (\<forall>name' p'. \<exists>err. invoke e rem name' p' = (Inl err, []))"
proof -
  note tok = assms(1)
  have reached: "invoke e rem name p = (Inl TokenNotSet, [])"
  proof -
    from acc have "name \<in> set tool_names"
      by (auto simp: accepts_def tool_names_def split: if_splits)
    then consider (a) "name = ''get_github_projects''" | (b) "name = ''get_project_details''"
      | (c) "name = ''get_repository_issues''" | (d) "name = ''get_repository_pull_requests''"
      | (f) "name = ''add_item_to_project''" | (g) "name = ''update_project_item_field''"
      | (h) "name = ''get_repositories''" | (i) "name = ''get_project_views''"
      unfolding tool_names_def set_simps insert_iff empty_iff by metis
    then show ?thesis
    proof cases
      case a
      with acc tools_no_token(1) [OF tok] show ?thesis
        by (cases "organization_schema p") (auto simp: accepts_def fits_def invoke_tool)
    next
      case b
      with acc tools_no_token(2) [OF tok] show ?thesis
        by (cases "projectId_schema p") (auto simp: accepts_def fits_def invoke_tool)
    next
      case c
      with acc tools_no_token(3) [OF tok] show ?thesis
        by (cases "get_repository_issues_schema p") (auto simp: accepts_def fits_def invoke_tool)
    next
      case d
      with acc tools_no_token(4) [OF tok] show ?thesis
        by (cases "get_repository_pull_requests_schema p")
          (auto simp: accepts_def fits_def invoke_tool)
    next
      case f
      with acc obtain args where s: "add_item_to_project_schema p = Inr args"
        by (cases "add_item_to_project_schema p") (auto simp: accepts_def fits_def)
      obtain org pn pid cid title body where args: "args = (org, pn, pid, cid, title, body)"
        by (cases args) auto
      note v = add_item_to_project_schema_success [OF s [unfolded args]]
      have t: "truthy pid = nonempty_string (p ''projectId'')"
        "truthy cid = nonempty_string (p ''contentId'')"
        "truthy title = nonempty_string (p ''title'')"
        by (simp_all only: v(3-5) truthy_nonempty)
      from one [OF f] have "\<not> (truthy pid \<and> \<not> truthy cid \<and> \<not> truthy title)"
        unfolding t by blast
      with f s args show ?thesis
        by (simp add: invoke_tool add_item_no_token [OF tok])
    next
      case g
      with acc tools_no_token(5) [OF tok] show ?thesis
        by (cases "update_project_item_field_schema p")
          (auto simp: accepts_def fits_def invoke_tool)
    next
      case h
      with acc tools_no_token(6) [OF tok] show ?thesis
        by (cases "get_repositories_schema p") (auto simp: accepts_def fits_def invoke_tool)
    next
      case i
      with acc tools_no_token(7) [OF tok] show ?thesis
        by (cases "projectId_schema p") (auto simp: accepts_def fits_def invoke_tool)
    qed
  qed
  from reached invoke_no_token_fails [OF tok, of rem] show ?thesis
    using tok by (simp add: exec_no_token)
qed

theorem absent_credential_fails_without_request_witness:
  "invoke \<lparr>GITHUB_TOKEN = None\<rparr> unreachable ''get_github_projects''
        [''organization'' \<mapsto> JStr ''acme''] = (Inl TokenNotSet, [])
   \<and> invoke \<lparr>GITHUB_TOKEN = Some []\<rparr> unreachable ''add_item_to_project''
        [''organization'' \<mapsto> JStr ''acme'', ''projectName'' \<mapsto> JStr ''Roadmap'',
         ''projectId'' \<mapsto> JStr ''PVT_1'', ''contentId'' \<mapsto> JStr ''I_1''] = (Inl TokenNotSet, [])
   \<and> executeGitHubGraphQL \<lparr>GITHUB_TOKEN = None\<rparr> unreachable get_github_projects_query
        (JObj [(''org'', JStr ''acme'')]) [] = (Inl TokenNotSet, [])"
  using absent_credential_fails_without_request [of "\<lparr>GITHUB_TOKEN = None\<rparr>"
      "''get_github_projects''" "[''organization'' \<mapsto> JStr ''acme'']" unreachable
      get_github_projects_query "JObj [(''org'', JStr ''acme'')]" "[]"]
    absent_credential_fails_without_request [of "\<lparr>GITHUB_TOKEN = Some []\<rparr>"
      "''add_item_to_project''"
      "[''organization'' \<mapsto> JStr ''acme'', ''projectName'' \<mapsto> JStr ''Roadmap'',
        ''projectId'' \<mapsto> JStr ''PVT_1'', ''contentId'' \<mapsto> JStr ''I_1'']" unreachable]
  by (simp add: truthy_def accepts_def fits_def organization_schema_def
        add_item_to_project_schema_def z_string_def z_optional_def nonempty_string_def)
end
